theory Spec2Isabelle
  imports Complex_Main "HOL-Library.AList"
begin

section \<open>Exceptions\<close>

text \<open>
  Every \<open>raise\<close> of the source is a value. The configuration classes raise Python's
  \<open>ValueError\<close> (the error kind the specification calls \<open>ConfigError\<close>); the argument
  records which check failed and the offending value that the message interpolates.
  The rendering backend raises \<open>ValueError\<close> as well when it is asked for a figure of
  negative size. The other constructors are the exceptions that \<open>create_graph\<close>
  catches with its \<open>except Exception\<close>; \<open>BackendException\<close> stands for whatever the
  rendering backend raises when it cannot lay out a figure.
\<close>

datatype reason =
    Invalid_marker string
  | Invalid_line_style string
  | Line_width_must_be_positive
  | Marker_size_must_be_positive
  | Data_source_file_is_required
  | Invalid_format string
  | Figure_size_must_be_positive_finite

datatype exn =
    ValueError reason
  | AttributeError
  | IndexError
  | ZeroDivisionError
  | StopIteration
  | BackendException

section \<open>The configuration classes of \<open>core/config.py\<close>\<close>

text \<open>
  Each dataclass is a record whose fields have the annotated types. Python floats are
  modelled as reals: the source only compares them with zero. The fields \<open>min\<close>,
  \<open>max\<close> and \<open>label\<close> of \<open>AxisConfig\<close>, \<open>show\<close> of \<open>GridConfig\<close>, \<open>file\<close> of
  \<open>DataSource\<close> and \<open>output\<close> of \<open>Config\<close> are renamed, since the plain names are taken.
\<close>

record FontsConfig =
  title_size :: int
  label_size :: int
  legend_size :: int

record GridConfig =
  grid_show :: bool

record LineStyleConfig =
  markers :: "string list"
  line_styles :: "string list"
  auto_cycle :: bool
  line_width :: real
  marker_size :: real

record StyleConfig =
  width :: int
  height :: int
  fonts :: FontsConfig
  grid :: GridConfig
  line_style :: LineStyleConfig

record AxisConfig =
  axis_label :: string
  axis_min :: "real option"
  axis_max :: "real option"

record GraphConfig =
  title :: string
  x_axis :: AxisConfig
  y_axis :: AxisConfig
  style :: StyleConfig

record DataSource =
  source_file :: string
  label :: string

record DataConfig =
  sources :: "DataSource list"

record OutputConfig =
  format :: string
  dpi :: int
  save_path :: string

record Config =
  graph :: GraphConfig
  data :: DataConfig
  output_config :: OutputConfig

subsection \<open>\<open>LineStyleConfig.__post_init__\<close>\<close>

definition valid_markers :: "string list" where
  "valid_markers =
     [''o'', ''s'', ''^'', ''v'', ''<'', ''>'', ''p'', ''*'', ''+'', ''x'', ''D'', ''h'',
      ''H'', ''1'', ''2'', ''3'', ''4'', ''|'', ''_'', ''.'', '','']"

definition valid_line_styles :: "string list" where
  "valid_line_styles = [''-'', ''--'', ''-.'', '':'']"

text \<open>The two validation loops: the first entry outside the closed set raises.\<close>

fun check_markers :: "string list \<Rightarrow> exn + unit" where
  "check_markers [] = Inr ()"
| "check_markers (marker # rest) =
     (if marker \<notin> set valid_markers then Inl (ValueError (Invalid_marker marker))
      else check_markers rest)"

fun check_line_styles :: "string list \<Rightarrow> exn + unit" where
  "check_line_styles [] = Inr ()"
| "check_line_styles (ls # rest) =
     (if ls \<notin> set valid_line_styles then Inl (ValueError (Invalid_line_style ls))
      else check_line_styles rest)"

text \<open>
  Construction of a \<open>LineStyleConfig\<close>: the dataclass stores the five arguments and
  runs \<open>__post_init__\<close>, whose checks are made in this order.
\<close>

definition LineStyleConfig_init ::
  "string list \<Rightarrow> string list \<Rightarrow> bool \<Rightarrow> real \<Rightarrow> real \<Rightarrow> exn + LineStyleConfig" where
  "LineStyleConfig_init ms lss ac lw msz =
     (case check_markers ms of
        Inl e \<Rightarrow> Inl e
      | Inr _ \<Rightarrow>
          (case check_line_styles lss of
             Inl e \<Rightarrow> Inl e
           | Inr _ \<Rightarrow>
               if lw \<le> 0 then Inl (ValueError Line_width_must_be_positive)
               else if msz \<le> 0 then Inl (ValueError Marker_size_must_be_positive)
               else Inr \<lparr>markers = ms, line_styles = lss, auto_cycle = ac,
                         line_width = lw, marker_size = msz\<rparr>))"

text \<open>The field defaults of the dataclass, that is \<open>LineStyleConfig()\<close>.\<close>

definition default_markers :: "string list" where
  "default_markers = []"

definition default_line_styles :: "string list" where
  "default_line_styles = [''-'']"

definition LineStyleConfig_default :: "exn + LineStyleConfig" where
  "LineStyleConfig_default =
     LineStyleConfig_init default_markers default_line_styles True 2 6"

subsection \<open>\<open>DataSource\<close> and \<open>DataConfig.add_source\<close>\<close>

text \<open>
  \<open>Path(file).stem\<close> belongs to the standard library; it is a parameter \<open>stem\<close> of the
  model. \<open>posix_stem\<close> is the instance used on concrete inputs: the last component of
  the path, cut at its last dot unless that dot is its first or last character.
\<close>

fun split_path :: "string \<Rightarrow> string list" where
  "split_path [] = [[]]"
| "split_path (c # cs) =
     (if c = CHR ''/'' then [] # split_path cs
      else (case split_path cs of [] \<Rightarrow> [[c]] | p # ps \<Rightarrow> (c # p) # ps))"

definition path_name :: "string \<Rightarrow> string" where
  "path_name p =
     (case filter (\<lambda>c. c \<noteq> [] \<and> c \<noteq> ''.'') (split_path p) of
        [] \<Rightarrow> [] | c # cs \<Rightarrow> last (c # cs))"

definition rfind_dot :: "string \<Rightarrow> nat option" where
  "rfind_dot name =
     (if CHR ''.'' \<in> set name
      then Some (length name - 1 - length (takeWhile (\<lambda>c. c \<noteq> CHR ''.'') (rev name)))
      else None)"

definition posix_stem :: "string \<Rightarrow> string" where
  "posix_stem p =
     (let name = path_name p in
      case rfind_dot name of
        None \<Rightarrow> name
      | Some i \<Rightarrow> if 0 < i \<and> i < length name - 1 then take i name else name)"

text \<open>
  \<open>DataSource.__post_init__\<close>: an empty \<open>file\<close> raises, an empty \<open>label\<close> is replaced
  by the stem of the file.
\<close>

definition DataSource_init :: "(string \<Rightarrow> string) \<Rightarrow> string \<Rightarrow> string \<Rightarrow> exn + DataSource" where
  "DataSource_init stem f l =
     (if f = [] then Inl (ValueError Data_source_file_is_required)
      else Inr \<lparr>source_file = f, label = (if l = [] then stem f else l)\<rparr>)"

text \<open>
  \<open>DataConfig.add_source(file, label)\<close> with \<open>label: Optional[str]\<close>: a missing label
  is the stem, then the \<open>DataSource\<close> is constructed and appended.
\<close>

definition add_source ::
  "(string \<Rightarrow> string) \<Rightarrow> DataConfig \<Rightarrow> string \<Rightarrow> string option \<Rightarrow> exn + DataConfig" where
  "add_source stem dc f l =
     (let l' = (case l of None \<Rightarrow> stem f | Some s \<Rightarrow> s) in
      case DataSource_init stem f l' of
        Inl e \<Rightarrow> Inl e
      | Inr src \<Rightarrow> Inr (dc\<lparr>sources := sources dc @ [src]\<rparr>))"

subsection \<open>\<open>OutputConfig.__post_init__\<close>\<close>

text \<open>\<open>str.lower\<close> on the ASCII letters.\<close>

definition lower_char :: "char \<Rightarrow> char" where
  "lower_char c =
     (case map_of (zip ''ABCDEFGHIJKLMNOPQRSTUVWXYZ'' ''abcdefghijklmnopqrstuvwxyz'') c of
        None \<Rightarrow> c
      | Some l \<Rightarrow> l)"

definition lower :: "string \<Rightarrow> string" where
  "lower s = map lower_char s"

definition valid_formats :: "string list" where
  "valid_formats = [''png'', ''jpg'', ''jpeg'', ''svg'', ''pdf'']"

text \<open>
  The only check is the one on the format, made on a lower-cased copy; the three
  arguments are stored as given.
\<close>

definition OutputConfig_init :: "string \<Rightarrow> int \<Rightarrow> string \<Rightarrow> exn + OutputConfig" where
  "OutputConfig_init fmt d p =
     (if lower fmt \<notin> set valid_formats then Inl (ValueError (Invalid_format fmt))
      else Inr \<lparr>format = fmt, dpi = d, save_path = p\<rparr>)"

subsection \<open>The generic mapping read by \<open>Config.from_dict\<close>\<close>

text \<open>
  The mapping produced by the YAML parser is a tree of dictionaries. Each dictionary
  is a record with one optional field per key that the source reads (\<open>k_title\<close> is
  the key \<open>"title"\<close>): \<open>None\<close> is an absent key, and a dictionary whose fields are all
  \<open>None\<close> is \<open>{}\<close>. The keys \<open>"min"\<close> and \<open>"max"\<close> may hold YAML's null, so their
  values are optional themselves. \<open>k_type\<close> is read by \<open>create_graph_from_config\<close>
  only.
\<close>

record fonts_dict =
  k_title_size :: "int option"
  k_label_size :: "int option"
  k_legend_size :: "int option"

record grid_dict =
  k_show :: "bool option"

record line_style_dict =
  k_markers :: "string list option"
  k_line_styles :: "string list option"
  k_auto_cycle :: "bool option"
  k_line_width :: "real option"
  k_marker_size :: "real option"

record style_dict =
  k_width :: "int option"
  k_height :: "int option"
  k_fonts :: "fonts_dict option"
  k_grid :: "grid_dict option"
  k_line_style :: "line_style_dict option"

record axis_dict =
  k_label :: "string option"
  k_min :: "real option option"
  k_max :: "real option option"

record graph_dict =
  k_type :: "string option"
  k_title :: "string option"
  k_x_axis :: "axis_dict option"
  k_y_axis :: "axis_dict option"
  k_style :: "style_dict option"

record source_dict =
  k_file :: "string option"
  k_source_label :: "string option"

record data_dict =
  k_sources :: "source_dict list option"

record output_dict =
  k_format :: "string option"
  k_dpi :: "int option"
  k_save_path :: "string option"

record config_dict =
  k_graph :: "graph_dict option"
  k_data :: "data_dict option"
  k_output :: "output_dict option"

definition empty_fonts :: fonts_dict where
  "empty_fonts = \<lparr>k_title_size = None, k_label_size = None, k_legend_size = None\<rparr>"

definition empty_grid :: grid_dict where
  "empty_grid = \<lparr>k_show = None\<rparr>"

definition empty_line_style :: line_style_dict where
  "empty_line_style =
     \<lparr>k_markers = None, k_line_styles = None, k_auto_cycle = None,
      k_line_width = None, k_marker_size = None\<rparr>"

definition empty_style :: style_dict where
  "empty_style =
     \<lparr>k_width = None, k_height = None, k_fonts = None, k_grid = None, k_line_style = None\<rparr>"

definition empty_axis :: axis_dict where
  "empty_axis = \<lparr>k_label = None, k_min = None, k_max = None\<rparr>"

definition empty_graph :: graph_dict where
  "empty_graph =
     \<lparr>k_type = None, k_title = None, k_x_axis = None, k_y_axis = None, k_style = None\<rparr>"

definition empty_data :: data_dict where
  "empty_data = \<lparr>k_sources = None\<rparr>"

definition empty_output :: output_dict where
  "empty_output = \<lparr>k_format = None, k_dpi = None, k_save_path = None\<rparr>"

definition empty_config :: config_dict where
  "empty_config = \<lparr>k_graph = None, k_data = None, k_output = None\<rparr>"

text \<open>\<open>d.get(key, default)\<close>, and \<open>d.get(key)\<close> on a key that may hold null.\<close>

definition get :: "'a option \<Rightarrow> 'a \<Rightarrow> 'a" where
  "get v dflt = (case v of None \<Rightarrow> dflt | Some x \<Rightarrow> x)"

definition get_nullable :: "'a option option \<Rightarrow> 'a option" where
  "get_nullable v = (case v of None \<Rightarrow> None | Some x \<Rightarrow> x)"

subsection \<open>\<open>Config.from_dict\<close>\<close>

text \<open>The sub-dictionaries that \<open>from_dict\<close> reaches with \<open>.get(key, {})\<close>.\<close>

definition graph_of :: "config_dict \<Rightarrow> graph_dict" where
  "graph_of m = get (k_graph m) empty_graph"

definition x_axis_of :: "config_dict \<Rightarrow> axis_dict" where
  "x_axis_of m = get (k_x_axis (graph_of m)) empty_axis"

definition y_axis_of :: "config_dict \<Rightarrow> axis_dict" where
  "y_axis_of m = get (k_y_axis (graph_of m)) empty_axis"

definition style_of :: "config_dict \<Rightarrow> style_dict" where
  "style_of m = get (k_style (graph_of m)) empty_style"

definition fonts_of :: "config_dict \<Rightarrow> fonts_dict" where
  "fonts_of m = get (k_fonts (style_of m)) empty_fonts"

definition grid_of :: "config_dict \<Rightarrow> grid_dict" where
  "grid_of m = get (k_grid (style_of m)) empty_grid"

definition line_style_of :: "config_dict \<Rightarrow> line_style_dict" where
  "line_style_of m = get (k_line_style (style_of m)) empty_line_style"

definition data_of :: "config_dict \<Rightarrow> data_dict" where
  "data_of m = get (k_data m) empty_data"

definition output_of :: "config_dict \<Rightarrow> output_dict" where
  "output_of m = get (k_output m) empty_output"

text \<open>The two list defaults that \<open>from_dict\<close> passes to \<open>.get\<close>.\<close>

definition from_dict_markers :: "string list" where
  "from_dict_markers =
     [''o'', ''s'', ''^'', ''v'', ''<'', ''>'', ''p'', ''*'', ''+'', ''x'', ''D'', ''h'']"

definition from_dict_line_styles :: "string list" where
  "from_dict_line_styles = [''-'', ''--'', ''-.'', '':'']"

text \<open>The loop over \<open>data.sources\<close>: the first source that raises ends it.\<close>

fun add_sources ::
  "(string \<Rightarrow> string) \<Rightarrow> DataConfig \<Rightarrow> source_dict list \<Rightarrow> exn + DataConfig" where
  "add_sources stem dc [] = Inr dc"
| "add_sources stem dc (source_data # rest) =
     (case add_source stem dc (get (k_file source_data) []) (k_source_label source_data) of
        Inl e \<Rightarrow> Inl e
      | Inr dc' \<Rightarrow> add_sources stem dc' rest)"

definition from_dict :: "(string \<Rightarrow> string) \<Rightarrow> config_dict \<Rightarrow> exn + Config" where
  "from_dict stem m =
     (case LineStyleConfig_init
             (get (k_markers (line_style_of m)) from_dict_markers)
             (get (k_line_styles (line_style_of m)) from_dict_line_styles)
             (get (k_auto_cycle (line_style_of m)) True)
             (get (k_line_width (line_style_of m)) 2)
             (get (k_marker_size (line_style_of m)) 6) of
        Inl e \<Rightarrow> Inl e
      | Inr ls \<Rightarrow>
          let graph_config =
                \<lparr>title = get (k_title (graph_of m)) [],
                 x_axis = \<lparr>axis_label = get (k_label (x_axis_of m)) [],
                           axis_min = get_nullable (k_min (x_axis_of m)),
                           axis_max = get_nullable (k_max (x_axis_of m))\<rparr>,
                 y_axis = \<lparr>axis_label = get (k_label (y_axis_of m)) [],
                           axis_min = get_nullable (k_min (y_axis_of m)),
                           axis_max = get_nullable (k_max (y_axis_of m))\<rparr>,
                 style = \<lparr>width = get (k_width (style_of m)) 10,
                          height = get (k_height (style_of m)) 10,
                          fonts = \<lparr>title_size = get (k_title_size (fonts_of m)) 16,
                                   label_size = get (k_label_size (fonts_of m)) 12,
                                   legend_size = get (k_legend_size (fonts_of m)) 10\<rparr>,
                          grid = \<lparr>grid_show = get (k_show (grid_of m)) True\<rparr>,
                          line_style = ls\<rparr>\<rparr>
          in
          (case add_sources stem \<lparr>sources = []\<rparr> (get (k_sources (data_of m)) []) of
             Inl e \<Rightarrow> Inl e
           | Inr data_config \<Rightarrow>
               (case OutputConfig_init
                       (get (k_format (output_of m)) ''png'')
                       (get (k_dpi (output_of m)) 300)
                       (get (k_save_path (output_of m)) ''./output/graph.png'') of
                  Inl e \<Rightarrow> Inl e
                | Inr oc \<Rightarrow>
                    Inr \<lparr>graph = graph_config, data = data_config, output_config = oc\<rparr>)))"

subsection \<open>\<open>Config.to_dict\<close>\<close>

definition to_dict :: "Config \<Rightarrow> config_dict" where
  "to_dict c =
     \<lparr>k_graph = Some
        \<lparr>k_type = None,
         k_title = Some (title (graph c)),
         k_x_axis = Some \<lparr>k_label = Some (axis_label (x_axis (graph c))),
                          k_min = Some (axis_min (x_axis (graph c))),
                          k_max = Some (axis_max (x_axis (graph c)))\<rparr>,
         k_y_axis = Some \<lparr>k_label = Some (axis_label (y_axis (graph c))),
                          k_min = Some (axis_min (y_axis (graph c))),
                          k_max = Some (axis_max (y_axis (graph c)))\<rparr>,
         k_style = Some
           \<lparr>k_width = Some (width (style (graph c))),
            k_height = Some (height (style (graph c))),
            k_fonts = Some
              \<lparr>k_title_size = Some (title_size (fonts (style (graph c)))),
               k_label_size = Some (label_size (fonts (style (graph c)))),
               k_legend_size = Some (legend_size (fonts (style (graph c))))\<rparr>,
            k_grid = Some \<lparr>k_show = Some (grid_show (grid (style (graph c))))\<rparr>,
            k_line_style = Some
              \<lparr>k_markers = Some (markers (line_style (style (graph c)))),
               k_line_styles = Some (line_styles (line_style (style (graph c)))),
               k_auto_cycle = Some (auto_cycle (line_style (style (graph c)))),
               k_line_width = Some (line_width (line_style (style (graph c)))),
               k_marker_size = Some (marker_size (line_style (style (graph c))))\<rparr>\<rparr>\<rparr>,
      k_data = Some
        \<lparr>k_sources = Some
           (map (\<lambda>source. \<lparr>k_file = Some (source_file source),
                           k_source_label = Some (label source)\<rparr>)
                (sources (data c)))\<rparr>,
      k_output = Some
        \<lparr>k_format = Some (format (output_config c)),
         k_dpi = Some (dpi (output_config c)),
         k_save_path = Some (save_path (output_config c))\<rparr>\<rparr>"

section \<open>Data loading, \<open>core/data_processor.py\<close>\<close>

text \<open>
  A \<open>DataFrame\<close> is its columns in order, each a name with its values; all columns
  of a frame have the same number of rows. \<open>df.empty\<close> holds when there is no column
  or no row.
\<close>

type_synonym DataFrame = "(string \<times> real list) list"

definition df_columns :: "DataFrame \<Rightarrow> string list" where
  "df_columns df = map fst df"

definition df_empty :: "DataFrame \<Rightarrow> bool" where
  "df_empty df = (case df of [] \<Rightarrow> True | (_, values) # _ \<Rightarrow> values = [])"

text \<open>
  \<open>df[name]\<close> for a name taken from \<open>df.columns\<close>, when that name belongs to one
  column only: the values of that column. A frame that repeats a column name
  answers \<open>df[name]\<close> with all the columns of that name, which is not a single
  column; \<open>df_col\<close> does not describe that case, and the properties below that read
  the columns of a frame given by the caller assume \<open>distinct (df_columns df)\<close>. The
  frames that \<open>load_csv\<close> builds have the two names \<open>x\<close> and \<open>y\<close>, and \<open>pd.read_csv\<close>
  renames a repeated header.
\<close>

definition df_col :: "DataFrame \<Rightarrow> string \<Rightarrow> real list" where
  "df_col df name = (case map_of df name of None \<Rightarrow> [] | Some values \<Rightarrow> values)"

text \<open>
  \<open>pd.read_csv\<close> reads the file system: its outcome for each path is a parameter
  \<open>read_csv\<close> of the model, either one of the exceptions that \<open>load_csv\<close> catches or
  the parsed frame.
\<close>

datatype csv_result =
    FileNotFoundError
  | EmptyDataError
  | ParserError
  | OtherException
  | Parsed DataFrame

text \<open>What the source prints, one constructor for each \<open>print\<close>.\<close>

datatype message =
    Error_file_not_found string
  | Error_file_is_empty string
  | Error_parsing_csv string
  | Error_loading_csv string
  | Warning_failed_to_load string
  | Error_unsupported_graph_type string
  | Error_no_data_sources_provided
  | Warning_skipping_source_missing_keys
  | Warning_skipping_invalid_dataframe string
  | Warning_skipping_empty_dataframe string
  | Error_creating_graph exn
  | Error_no_data_sources_in_configuration
  | Error_failed_to_load_any_data

text \<open>
  \<open>load_csv\<close>: a frame with fewer than two columns raises \<open>ValueError\<close> inside the
  \<open>try\<close>, which the last handler turns into \<open>None\<close>.
\<close>

definition load_csv :: "(string \<Rightarrow> csv_result) \<Rightarrow> string \<Rightarrow> message list \<times> DataFrame option" where
  "load_csv read_csv file_path =
     (case read_csv file_path of
        Parsed df \<Rightarrow>
          if length (df_columns df) < 2 then ([Error_loading_csv file_path], None)
          else
            let x_column = df_columns df ! 0; y_column = df_columns df ! 1
            in ([], Some [(''x'', df_col df x_column), (''y'', df_col df y_column)])
      | FileNotFoundError \<Rightarrow> ([Error_file_not_found file_path], None)
      | EmptyDataError \<Rightarrow> ([Error_file_is_empty file_path], None)
      | ParserError \<Rightarrow> ([Error_parsing_csv file_path], None)
      | OtherException \<Rightarrow> ([Error_loading_csv file_path], None))"

text \<open>
  \<open>load_multiple_csvs\<close>: the result dictionary keeps insertion order, and storing
  under a key that is already there replaces the value in place, which is
  \<open>AList.update\<close>. A source whose \<open>"file"\<close> is missing or empty is passed over.
\<close>

fun load_loop ::
  "(string \<Rightarrow> csv_result) \<Rightarrow> source_dict list \<Rightarrow> message list \<Rightarrow> (string \<times> DataFrame) list
     \<Rightarrow> message list \<times> (string \<times> DataFrame) list" where
  "load_loop read_csv [] msgs dataframes = (msgs, dataframes)"
| "load_loop read_csv (source # rest) msgs dataframes =
     (case k_file source of
        None \<Rightarrow> load_loop read_csv rest msgs dataframes
      | Some file_path \<Rightarrow>
          let label = get (k_source_label source) file_path in
          if file_path = [] then load_loop read_csv rest msgs dataframes
          else
            (case load_csv read_csv file_path of
               (out, Some df) \<Rightarrow>
                 load_loop read_csv rest (msgs @ out) (AList.update label df dataframes)
             | (out, None) \<Rightarrow>
                 load_loop read_csv rest (msgs @ out @ [Warning_failed_to_load file_path])
                   dataframes))"

definition load_multiple_csvs ::
  "(string \<Rightarrow> csv_result) \<Rightarrow> source_dict list \<Rightarrow> message list \<times> (string \<times> DataFrame) list" where
  "load_multiple_csvs read_csv srcs = load_loop read_csv srcs [] []"

section \<open>The rendering backend\<close>

text \<open>
  Modelled from the spec: the rendering backend (the axes object of the plotting
  library) is an external collaborator and not part of the repository. The model
  keeps what the specification says of it: the axes hold the artists drawn so far
  and a property cycle; a \<open>plot\<close> call that passes no line style of its own takes
  the next element of the cycle, wrapping around at its end, and an installed
  cycle without elements has no next element. Without an installed cycle the
  line style is the solid one and there is no marker unless one is passed.

  Three refusals of the backend end inside the \<open>try\<close> block of \<open>create_graph\<close> and
  are part of the model. A figure cannot be created with a negative width or
  height, and a figure whose width or height is zero cannot be laid out
  (\<open>config.py\<close> checks neither field). A property cycle over two keys is composed
  from one cycle for each key, and composing reads the first element of each: it
  raises when the sequences are empty. Two checks of the backend are not
  modelled: the one of marker and line-style symbols (it accepts the symbols of
  the closed sets of \<open>config.py\<close>), and an upper bound on the size of a figure.
  The properties of a figure with a style of the caller are therefore stated for a
  figure that \<open>create_graph\<close> returns.
\<close>

record artist =
  art_kind :: string
  art_x :: "real list"
  art_y :: "real list"
  art_label :: string
  art_marker :: "string option"
  art_linestyle :: "string option"
  art_linewidth :: "real option"
  art_markersize :: "real option"
  art_alpha :: "real option"
  art_s :: "real option"

record Axes =
  prop_cycle :: "(string option \<times> string) list option"
  cycle_pos :: nat
  artists :: "artist list"

definition new_axes :: Axes where
  "new_axes = \<lparr>prop_cycle = None, cycle_pos = 0, artists = []\<rparr>"

text \<open>\<open>plt.subplots(figsize=figsize)\<close> and \<open>plt.tight_layout()\<close>.\<close>

definition subplots :: "int \<times> int \<Rightarrow> exn + Axes" where
  "subplots figsize =
     (if fst figsize < 0 \<or> snd figsize < 0
      then Inl (ValueError Figure_size_must_be_positive_finite)
      else Inr new_axes)"

definition tight_layout :: "int \<times> int \<Rightarrow> exn + unit" where
  "tight_layout figsize =
     (if fst figsize = 0 \<or> snd figsize = 0 then Inl BackendException else Inr ())"

text \<open>
  \<open>cycler(linestyle=...)\<close> and \<open>cycler(marker=..., linestyle=...)\<close>; the two sequences
  of the second call have the same length.
\<close>

definition cycler_linestyle :: "string list \<Rightarrow> (string option \<times> string) list" where
  "cycler_linestyle linestyle = map (\<lambda>ls. (None, ls)) linestyle"

definition cycler_marker_linestyle ::
  "string list \<Rightarrow> string list \<Rightarrow> exn + (string option \<times> string) list" where
  "cycler_marker_linestyle marker linestyle =
     (if marker = [] \<or> linestyle = [] then Inl StopIteration
      else Inr (zip (map Some marker) linestyle))"

definition set_prop_cycle :: "(string option \<times> string) list \<Rightarrow> Axes \<Rightarrow> Axes" where
  "set_prop_cycle custom_cycler ax = ax\<lparr>prop_cycle := Some custom_cycler, cycle_pos := 0\<rparr>"

record plot_kwargs =
  kw_label :: string
  kw_linestyle :: "string option"
  kw_marker :: "string option"
  kw_linewidth :: real
  kw_markersize :: "real option"

definition line_artist ::
  "real list \<Rightarrow> real list \<Rightarrow> plot_kwargs \<Rightarrow> string option \<Rightarrow> string \<Rightarrow> artist" where
  "line_artist x y kw marker linestyle =
     \<lparr>art_kind = ''line'', art_x = x, art_y = y, art_label = kw_label kw,
      art_marker = marker, art_linestyle = Some linestyle,
      art_linewidth = Some (kw_linewidth kw), art_markersize = kw_markersize kw,
      art_alpha = None, art_s = None\<rparr>"

definition ax_plot :: "real list \<Rightarrow> real list \<Rightarrow> plot_kwargs \<Rightarrow> Axes \<Rightarrow> exn + Axes" where
  "ax_plot x y kw ax =
     (case kw_linestyle kw of
        Some linestyle \<Rightarrow>
          Inr (ax\<lparr>artists := artists ax @ [line_artist x y kw (kw_marker kw) linestyle]\<rparr>)
      | None \<Rightarrow>
          (case prop_cycle ax of
             None \<Rightarrow>
               Inr (ax\<lparr>artists := artists ax @ [line_artist x y kw (kw_marker kw) ''-'']\<rparr>)
           | Some items \<Rightarrow>
               if items = [] then Inl StopIteration
               else
                 let (marker, linestyle) = items ! cycle_pos ax in
                 Inr (ax\<lparr>cycle_pos := (cycle_pos ax + 1) mod length items,
                         artists := artists ax @
                           [line_artist x y kw
                              (case kw_marker kw of None \<Rightarrow> marker | Some k \<Rightarrow> Some k)
                              linestyle]\<rparr>)))"

definition ax_bar :: "real list \<Rightarrow> real list \<Rightarrow> string \<Rightarrow> real \<Rightarrow> Axes \<Rightarrow> Axes" where
  "ax_bar x y lbl alpha ax =
     ax\<lparr>artists := artists ax @
        [\<lparr>art_kind = ''bar'', art_x = x, art_y = y, art_label = lbl,
          art_marker = None, art_linestyle = None, art_linewidth = None,
          art_markersize = None, art_alpha = Some alpha, art_s = None\<rparr>]\<rparr>"

definition ax_scatter ::
  "real list \<Rightarrow> real list \<Rightarrow> string \<Rightarrow> real \<Rightarrow> string \<Rightarrow> real \<Rightarrow> Axes \<Rightarrow> Axes" where
  "ax_scatter x y lbl alpha marker s ax =
     ax\<lparr>artists := artists ax @
        [\<lparr>art_kind = ''scatter'', art_x = x, art_y = y, art_label = lbl,
          art_marker = Some marker, art_linestyle = None, art_linewidth = None,
          art_markersize = None, art_alpha = Some alpha, art_s = Some s\<rparr>]\<rparr>"

section \<open>Graph building, \<open>core/graph_builder.py\<close>\<close>

subsection \<open>Python operations that may raise\<close>

definition and_then :: "exn + 'a \<Rightarrow> ('a \<Rightarrow> exn + 'b) \<Rightarrow> exn + 'b" where
  "and_then r f = (case r of Inl e \<Rightarrow> Inl e | Inr x \<Rightarrow> f x)"

definition py_mod :: "nat \<Rightarrow> nat \<Rightarrow> exn + nat" where
  "py_mod i n = (if n = 0 then Inl ZeroDivisionError else Inr (i mod n))"

definition py_index :: "'a list \<Rightarrow> nat \<Rightarrow> exn + 'a" where
  "py_index xs k = (if k < length xs then Inr (xs ! k) else Inl IndexError)"

text \<open>\<open>xs[i % len(xs)]\<close>\<close>

definition cycle_index :: "'a list \<Rightarrow> nat \<Rightarrow> exn + 'a" where
  "cycle_index xs i = and_then (py_mod i (length xs)) (py_index xs)"

subsection \<open>The arguments of \<open>create_graph\<close>\<close>

text \<open>
  An entry of \<open>data_sources\<close> is a dictionary that may have the keys \<open>"dataframe"\<close>
  and \<open>"label"\<close>; the value under \<open>"dataframe"\<close> may fail the \<open>isinstance\<close> test.
\<close>

datatype frame_value = NotADataFrame | Frame DataFrame

record source_entry =
  dataframe :: "frame_value option"
  entry_label :: "string option"

text \<open>
  \<open>style_config\<close> is \<open>None\<close>, a \<open>StyleConfig\<close> object (as the examples pass it) or
  the raw \<open>"style"\<close> dictionary (as \<open>create_graph_from_config\<close> passes it). An
  object is true, a dictionary is true unless it is \<open>{}\<close>, and only the object has
  the attributes that \<open>create_graph\<close> reads.
\<close>

datatype style_arg = NoStyle | StyleObject StyleConfig | StyleMapping style_dict

fun truthy :: "style_arg \<Rightarrow> bool" where
  "truthy NoStyle = False"
| "truthy (StyleObject _) = True"
| "truthy (StyleMapping d) = (d \<noteq> empty_style)"

fun attr :: "style_arg \<Rightarrow> exn + StyleConfig" where
  "attr (StyleObject s) = Inr s"
| "attr _ = Inl AttributeError"

text \<open>The value of \<open>style_config and p(style_config)\<close>.\<close>

definition style_and :: "style_arg \<Rightarrow> (StyleConfig \<Rightarrow> bool) \<Rightarrow> exn + bool" where
  "style_and style_config p =
     (if truthy style_config then and_then (attr style_config) (\<lambda>s. Inr (p s)) else Inr False)"

text \<open>The value of \<open>f(style_config) if style_config else dflt\<close>.\<close>

definition style_or :: "style_arg \<Rightarrow> (StyleConfig \<Rightarrow> 'a) \<Rightarrow> 'a \<Rightarrow> exn + 'a" where
  "style_or style_config f dflt =
     (if truthy style_config then and_then (attr style_config) (\<lambda>s. Inr (f s)) else Inr dflt)"

subsection \<open>The cycle sequence\<close>

text \<open>The nested loops that fill \<open>combined_styles\<close>.\<close>

fun inner_loop :: "string \<Rightarrow> string list \<Rightarrow> (string \<times> string) list \<Rightarrow> (string \<times> string) list" where
  "inner_loop marker [] combined = combined"
| "inner_loop marker (ls # rest) combined = inner_loop marker rest (combined @ [(marker, ls)])"

fun outer_loop ::
  "string list \<Rightarrow> string list \<Rightarrow> (string \<times> string) list \<Rightarrow> (string \<times> string) list" where
  "outer_loop [] lss combined = combined"
| "outer_loop (marker # rest) lss combined = outer_loop rest lss (inner_loop marker lss combined)"

definition combined_styles :: "string list \<Rightarrow> string list \<Rightarrow> (string \<times> string) list" where
  "combined_styles ms lss = outer_loop ms lss []"

text \<open>
  The cycler handed to \<open>set_prop_cycle\<close>: the line styles alone when there are no
  markers, the combined pairs otherwise. With markers and no line style
  \<open>combined_styles\<close> is empty and building the cycler raises.
\<close>

definition custom_cycler ::
  "string list \<Rightarrow> string list \<Rightarrow> exn + (string option \<times> string) list" where
  "custom_cycler ms lss =
     (if ms = [] then Inr (cycler_linestyle lss)
      else cycler_marker_linestyle (map fst (combined_styles ms lss))
             (map snd (combined_styles ms lss)))"

definition setup_cycle :: "style_arg \<Rightarrow> string \<Rightarrow> Axes \<Rightarrow> exn + Axes" where
  "setup_cycle style_config graph_type ax =
     and_then (style_and style_config (\<lambda>s. auto_cycle (line_style s) \<and> graph_type = ''line''))
       (\<lambda>b. if b
             then and_then (attr style_config)
                    (\<lambda>s. and_then
                           (custom_cycler (markers (line_style s)) (line_styles (line_style s)))
                           (\<lambda>c. Inr (set_prop_cycle c ax)))
             else Inr ax)"

subsection \<open>Plotting one source\<close>

text \<open>The manual selection of marker and line style for the source at index \<open>i\<close>.\<close>

definition manual_marker :: "style_arg \<Rightarrow> nat \<Rightarrow> exn + string option" where
  "manual_marker style_config i =
     and_then (style_and style_config (\<lambda>s. markers (line_style s) \<noteq> []))
       (\<lambda>b. if b
             then and_then (attr style_config)
                    (\<lambda>s. and_then (cycle_index (markers (line_style s)) i) (\<lambda>m. Inr (Some m)))
             else Inr None)"

definition manual_linestyle :: "style_arg \<Rightarrow> nat \<Rightarrow> exn + string" where
  "manual_linestyle style_config i =
     and_then (style_and style_config (\<lambda>s. line_styles (line_style s) \<noteq> []))
       (\<lambda>b. if b
             then and_then (attr style_config) (\<lambda>s. cycle_index (line_styles (line_style s)) i)
             else Inr ''-'')"

definition plot_line ::
  "style_arg \<Rightarrow> nat \<Rightarrow> real list \<Rightarrow> real list \<Rightarrow> string \<Rightarrow> Axes \<Rightarrow> exn + Axes" where
  "plot_line style_config i x y lbl ax =
     and_then (style_and style_config (\<lambda>s. auto_cycle (line_style s)))
       (\<lambda>auto.
          if auto then
            and_then (attr style_config)
              (\<lambda>s. ax_plot x y
                      \<lparr>kw_label = lbl, kw_linestyle = None, kw_marker = None,
                       kw_linewidth = line_width (line_style s),
                       kw_markersize = Some (marker_size (line_style s))\<rparr> ax)
          else
            and_then (manual_marker style_config i) (\<lambda>marker.
            and_then (manual_linestyle style_config i) (\<lambda>linestyle.
            and_then (style_or style_config (\<lambda>s. line_width (line_style s)) 2) (\<lambda>lw.
            and_then (if marker \<noteq> None
                      then and_then (style_or style_config (\<lambda>s. marker_size (line_style s)) 6)
                             (\<lambda>msz. Inr (Some msz))
                      else Inr None) (\<lambda>msz.
            ax_plot x y
              \<lparr>kw_label = lbl, kw_linestyle = Some linestyle, kw_marker = marker,
               kw_linewidth = lw, kw_markersize = msz\<rparr> ax)))))"

definition plot_scatter ::
  "style_arg \<Rightarrow> nat \<Rightarrow> real list \<Rightarrow> real list \<Rightarrow> string \<Rightarrow> Axes \<Rightarrow> exn + Axes" where
  "plot_scatter style_config i x y lbl ax =
     and_then (style_and style_config (\<lambda>s. markers (line_style s) \<noteq> []))
       (\<lambda>b.
          and_then (if b
                    then and_then (attr style_config)
                           (\<lambda>s. cycle_index (markers (line_style s)) i)
                    else and_then (style_and style_config (\<lambda>s. markers (line_style s) = []))
                           (\<lambda>_. Inr ''o'')) (\<lambda>marker.
          and_then (style_or style_config (\<lambda>s. (marker_size (line_style s))\<^sup>2) 36) (\<lambda>s.
          Inr (ax_scatter x y lbl 0.7 marker s ax))))"

text \<open>
  The body of the loop for the source at index \<open>i\<close>: what it prints, and the axes
  after it or the exception it raises.
\<close>

definition plot_source ::
  "string \<Rightarrow> style_arg \<Rightarrow> nat \<Rightarrow> source_entry \<Rightarrow> Axes \<Rightarrow> message list \<times> (exn + Axes)" where
  "plot_source graph_type style_config i source ax =
     (case (dataframe source, entry_label source) of
        (Some v, Some lbl) \<Rightarrow>
          (case v of
             NotADataFrame \<Rightarrow> ([Warning_skipping_invalid_dataframe lbl], Inr ax)
           | Frame df \<Rightarrow>
               if df_empty df then ([Warning_skipping_empty_dataframe lbl], Inr ax)
               else
                 ([],
                  and_then (py_index (df_columns df) 0) (\<lambda>x_col.
                  and_then (py_index (df_columns df) 1) (\<lambda>y_col.
                    if graph_type = ''line''
                    then plot_line style_config i (df_col df x_col) (df_col df y_col) lbl ax
                    else if graph_type = ''bar''
                    then Inr (ax_bar (df_col df x_col) (df_col df y_col) lbl 0.7 ax)
                    else if graph_type = ''scatter''
                    then plot_scatter style_config i (df_col df x_col) (df_col df y_col) lbl ax
                    else Inr ax))))
      | _ \<Rightarrow> ([Warning_skipping_source_missing_keys], Inr ax))"

text \<open>\<open>for i, source in enumerate(data_sources)\<close>\<close>

fun plot_loop ::
  "string \<Rightarrow> style_arg \<Rightarrow> nat \<Rightarrow> source_entry list \<Rightarrow> message list \<Rightarrow> Axes
     \<Rightarrow> message list \<times> (exn + Axes)" where
  "plot_loop graph_type style_config i [] msgs ax = (msgs, Inr ax)"
| "plot_loop graph_type style_config i (source # rest) msgs ax =
     (case plot_source graph_type style_config i source ax of
        (out, Inl e) \<Rightarrow> (msgs @ out, Inl e)
      | (out, Inr ax') \<Rightarrow> plot_loop graph_type style_config (Suc i) rest (msgs @ out) ax')"

subsection \<open>\<open>create_graph\<close> and its callers\<close>

record Figure =
  fig_size :: "int \<times> int"
  fig_axes :: Axes
  fig_title :: string
  fig_xlabel :: string
  fig_ylabel :: string

definition supported_types :: "string list" where
  "supported_types = [''line'', ''bar'', ''scatter'']"

text \<open>
  The \<open>try\<close> block of \<open>create_graph\<close>. When \<open>plt.subplots\<close> returns, it returns an
  axes object, so the two tests of \<open>self.ax\<close> against \<open>None\<close> take one branch only;
  the calls that set the title, the labels, the legend and the grid draw no series
  and are kept as the fields of the figure.
\<close>

definition create_graph_body ::
  "source_entry list \<Rightarrow> string \<Rightarrow> string \<Rightarrow> string \<Rightarrow> string \<Rightarrow> style_arg
     \<Rightarrow> message list \<times> (exn + Figure)" where
  "create_graph_body data_sources graph_type ttl x_label y_label style_config =
     (case style_or style_config (\<lambda>s. (width s, height s)) (10, 6) of
        Inl e \<Rightarrow> ([], Inl e)
      | Inr figsize \<Rightarrow>
          (case and_then (subplots figsize) (setup_cycle style_config graph_type) of
             Inl e \<Rightarrow> ([], Inl e)
           | Inr ax \<Rightarrow>
               (case plot_loop graph_type style_config 0 data_sources [] ax of
                  (msgs, Inl e) \<Rightarrow> (msgs, Inl e)
                | (msgs, Inr ax') \<Rightarrow>
                    (case tight_layout figsize of
                       Inl e \<Rightarrow> (msgs, Inl e)
                     | Inr _ \<Rightarrow>
                         (msgs, Inr \<lparr>fig_size = figsize, fig_axes = ax', fig_title = ttl,
                                     fig_xlabel = x_label, fig_ylabel = y_label\<rparr>)))))"

text \<open>
  \<open>create_graph\<close>: the two guards, then the \<open>try\<close> block, whose every exception is
  printed and turned into \<open>None\<close>.
\<close>

definition create_graph ::
  "source_entry list \<Rightarrow> string \<Rightarrow> string \<Rightarrow> string \<Rightarrow> string \<Rightarrow> style_arg
     \<Rightarrow> message list \<times> Figure option" where
  "create_graph data_sources graph_type ttl x_label y_label style_config =
     (if graph_type \<notin> set supported_types
      then ([Error_unsupported_graph_type graph_type], None)
      else if data_sources = [] then ([Error_no_data_sources_provided], None)
      else
        (case create_graph_body data_sources graph_type ttl x_label y_label style_config of
           (msgs, Inl e) \<Rightarrow> (msgs @ [Error_creating_graph e], None)
         | (msgs, Inr fig) \<Rightarrow> (msgs, Some fig)))"

text \<open>
  \<open>create_graph_from_dataframes\<close>: the loop over \<open>dataframes.items()\<close> that fills
  \<open>data_sources\<close>, then the call of \<open>create_graph\<close>.
\<close>

definition data_sources_of :: "(string \<times> DataFrame) list \<Rightarrow> source_entry list" where
  "data_sources_of dataframes =
     map (\<lambda>(lbl, df). \<lparr>dataframe = Some (Frame df), entry_label = Some lbl\<rparr>) dataframes"

definition create_graph_from_dataframes ::
  "(string \<times> DataFrame) list \<Rightarrow> string \<Rightarrow> string \<Rightarrow> string \<Rightarrow> string \<Rightarrow> style_arg
     \<Rightarrow> message list \<times> Figure option" where
  "create_graph_from_dataframes dataframes graph_type ttl x_label y_label style_config =
     create_graph (data_sources_of dataframes) graph_type ttl x_label y_label style_config"

text \<open>
  \<open>create_graph_from_config\<close> on the raw mapping; \<open>data_processor\<close> is the loader, that
  is the parameter \<open>read_csv\<close>.
\<close>

definition create_graph_from_config ::
  "(string \<Rightarrow> csv_result) \<Rightarrow> config_dict \<Rightarrow> message list \<times> Figure option" where
  "create_graph_from_config read_csv config =
     (let graph_config = get (k_graph config) empty_graph;
          graph_type = get (k_type graph_config) ''line'';
          ttl = get (k_title graph_config) ''Graph'';
          x_label = get (k_label (get (k_x_axis graph_config) empty_axis)) ''X'';
          y_label = get (k_label (get (k_y_axis graph_config) empty_axis)) ''Y'';
          style_config = get (k_style graph_config) empty_style;
          srcs = get (k_sources (get (k_data config) empty_data)) []
      in
      if srcs = [] then ([Error_no_data_sources_in_configuration], None)
      else
        (case load_multiple_csvs read_csv srcs of
           (msgs, dataframes) \<Rightarrow>
             if dataframes = [] then (msgs @ [Error_failed_to_load_any_data], None)
             else
               (case create_graph_from_dataframes dataframes graph_type ttl x_label y_label
                       (StyleMapping style_config) of
                  (out, fig) \<Rightarrow> (msgs @ out, fig))))"

subsection \<open>The round trip\<close>

text \<open>\<open>to_dict(from_dict(m))\<close>, an error when \<open>from_dict\<close> raises.\<close>

definition round_trip :: "(string \<Rightarrow> string) \<Rightarrow> config_dict \<Rightarrow> exn + config_dict" where
  "round_trip stem m = (case from_dict stem m of Inl e \<Rightarrow> Inl e | Inr c \<Rightarrow> Inr (to_dict c))"

section \<open>Notions used to state the properties\<close>

text \<open>
  A source of \<open>create_graph\<close> is drawn when the loop reaches its plotting call: it
  has both keys, its value is a frame and the frame is not empty. The other sources
  are skipped with a warning. A drawn source needs a second column, otherwise
  \<open>df.columns[1]\<close> raises.
\<close>

definition plottable :: "source_entry \<Rightarrow> bool" where
  "plottable s =
     (case (dataframe s, entry_label s) of
        (Some (Frame df), Some lbl) \<Rightarrow> \<not> df_empty df
      | _ \<Rightarrow> False)"

definition two_columns :: "source_entry \<Rightarrow> bool" where
  "two_columns s =
     (case dataframe s of
        Some (Frame df) \<Rightarrow> df_empty df \<or> 2 \<le> length (df_columns df)
      | _ \<Rightarrow> True)"

text \<open>
  The column names of a source's frame are distinct: then \<open>df[x_col]\<close> and
  \<open>df[y_col]\<close> are single columns and a plotting call draws one series.
\<close>

definition distinct_columns :: "source_entry \<Rightarrow> bool" where
  "distinct_columns s =
     (case dataframe s of
        Some (Frame df) \<Rightarrow> distinct (df_columns df)
      | _ \<Rightarrow> True)"

definition label_of :: "source_entry \<Rightarrow> string" where
  "label_of s = (case entry_label s of None \<Rightarrow> [] | Some lbl \<Rightarrow> lbl)"

text \<open>What a series looks like in the figure: its label, marker and line style.\<close>

definition look :: "artist \<Rightarrow> string \<times> string option \<times> string option" where
  "look a = (art_label a, art_marker a, art_linestyle a)"

text \<open>
  The label that construction gives a data source of the mapping: the label of the
  source when it has a non-empty one, the stem of its file otherwise.
\<close>

definition resolved_label :: "(string \<Rightarrow> string) \<Rightarrow> source_dict \<Rightarrow> string" where
  "resolved_label stem sd =
     (case k_source_label sd of
        None \<Rightarrow> stem (get (k_file sd) [])
      | Some l \<Rightarrow> if l = [] then stem (get (k_file sd) []) else l)"

text \<open>
  Two mappings for concrete evaluation: one with a title, a line width, an
  upper-case output format and two sources, the first of them without a label; and
  one whose only source has the empty label.
\<close>

definition example_mapping :: config_dict where
  "example_mapping =
     \<lparr>k_graph = Some (empty_graph
        \<lparr>k_title := Some ''Test'',
         k_style := Some (empty_style
           \<lparr>k_line_style := Some (empty_line_style\<lparr>k_line_width := Some 3\<rparr>)\<rparr>)\<rparr>),
      k_data = Some
        \<lparr>k_sources = Some
           [\<lparr>k_file = Some ''data/run1.csv'', k_source_label = None\<rparr>,
            \<lparr>k_file = Some ''b.csv'', k_source_label = Some ''B''\<rparr>]\<rparr>,
      k_output = Some (empty_output\<lparr>k_format := Some ''SVG''\<rparr>)\<rparr>"

definition empty_label_mapping :: config_dict where
  "empty_label_mapping =
     \<lparr>k_graph = None,
      k_data = Some \<lparr>k_sources = Some [\<lparr>k_file = Some ''a.csv'', k_source_label = Some []\<rparr>]\<rparr>,
      k_output = None\<rparr>"

text \<open>
  A source of the configuration loads successfully when it names a file and
  \<open>load_csv\<close> returns a frame for it; \<open>loaded\<close> is then the label under which
  \<open>load_multiple_csvs\<close> stores the frame (the label of the source, or the file path
  when it has none) together with the frame. \<open>loaded_sources\<close> lists the sources of
  a batch that load, in the order of the batch.
\<close>

definition loaded :: "(string \<Rightarrow> csv_result) \<Rightarrow> source_dict \<Rightarrow> (string \<times> DataFrame) option" where
  "loaded read_csv sd =
     (case k_file sd of
        None \<Rightarrow> None
      | Some file_path \<Rightarrow>
          if file_path = [] then None
          else (case snd (load_csv read_csv file_path) of
                  None \<Rightarrow> None
                | Some df \<Rightarrow> Some (get (k_source_label sd) file_path, df)))"

definition loaded_sources ::
  "(string \<Rightarrow> csv_result) \<Rightarrow> source_dict list \<Rightarrow> (string \<times> DataFrame) list" where
  "loaded_sources read_csv srcs = List.map_filter (loaded read_csv) srcs"

text \<open>A source that names a file for which \<open>load_csv\<close> returns \<open>None\<close>.\<close>

definition fails_to_load :: "(string \<Rightarrow> csv_result) \<Rightarrow> source_dict \<Rightarrow> string \<Rightarrow> bool" where
  "fails_to_load read_csv sd file_path \<longleftrightarrow>
     k_file sd = Some file_path \<and> file_path \<noteq> [] \<and> snd (load_csv read_csv file_path) = None"

text \<open>The sources of a configuration, as \<open>create_graph_from_config\<close> reads them.\<close>

definition config_sources :: "config_dict \<Rightarrow> source_dict list" where
  "config_sources config = get (k_sources (get (k_data config) empty_data)) []"

definition config_graph_type :: "config_dict \<Rightarrow> string" where
  "config_graph_type config = get (k_type (get (k_graph config) empty_graph)) ''line''"

definition config_style :: "config_dict \<Rightarrow> style_dict" where
  "config_style config = get (k_style (get (k_graph config) empty_graph)) empty_style"

text \<open>
  A file system for concrete evaluation: \<open>a.csv\<close> and \<open>b.csv\<close> hold two columns
  of data, \<open>one.csv\<close> holds a single column, and no other file exists.
\<close>

definition example_files :: "string \<Rightarrow> csv_result" where
  "example_files p =
     (if p = ''a.csv'' then Parsed [(''t'', [0, 1]), (''v'', [5, 6])]
      else if p = ''b.csv'' then Parsed [(''t'', [0, 1]), (''w'', [7, 8])]
      else if p = ''one.csv'' then Parsed [(''t'', [0, 1])]
      else FileNotFoundError)"

definition batch_config :: "source_dict list \<Rightarrow> config_dict" where
  "batch_config srcs = \<lparr>k_graph = None, k_data = Some \<lparr>k_sources = Some srcs\<rparr>, k_output = None\<rparr>"

text \<open>
  The scenario of the specification: markers \<open>["o", "s"]\<close>, line styles
  \<open>["-", "--", "-."]\<close>, the other fields at their defaults, and four series that
  each have two columns of data.
\<close>

definition scenario_style :: "bool \<Rightarrow> StyleConfig" where
  "scenario_style ac =
     \<lparr>width = 10, height = 10,
      fonts = \<lparr>title_size = 16, label_size = 12, legend_size = 10\<rparr>,
      grid = \<lparr>grid_show = True\<rparr>,
      line_style = \<lparr>markers = [''o'', ''s''], line_styles = [''-'', ''--'', ''-.''],
                    auto_cycle = ac, line_width = 2, marker_size = 6\<rparr>\<rparr>"

text \<open>A style with a given line style and a figure of ten by ten.\<close>

definition style_with :: "LineStyleConfig \<Rightarrow> StyleConfig" where
  "style_with ls =
     \<lparr>width = 10, height = 10,
      fonts = \<lparr>title_size = 16, label_size = 12, legend_size = 10\<rparr>,
      grid = \<lparr>grid_show = True\<rparr>,
      line_style = ls\<rparr>"

definition scenario_sources :: "source_entry list" where
  "scenario_sources =
     map (\<lambda>lbl. \<lparr>dataframe = Some (Frame [(''x'', [1, 2]), (''y'', [3, 4])]),
                 entry_label = Some lbl\<rparr>)
       [''s0'', ''s1'', ''s2'', ''s3'']"

section \<open>Construction-time validation\<close>

lemma check_markers_invalid:
  "\<exists>m\<in>set ms. m \<notin> set valid_markers \<Longrightarrow>
   \<exists>m\<in>set ms. m \<notin> set valid_markers \<and> check_markers ms = Inl (ValueError (Invalid_marker m))"
  by (induction ms) auto

lemma check_markers_ok: "check_markers ms = Inr u \<longleftrightarrow> set ms \<subseteq> set valid_markers"
  by (induction ms) auto

lemma check_line_styles_ok: "check_line_styles lss = Inr u \<longleftrightarrow> set lss \<subseteq> set valid_line_styles"
  by (induction lss) auto

lemma check_markers_Inl: "check_markers ms = Inl e \<Longrightarrow> \<not> set ms \<subseteq> set valid_markers"
  by (induction ms) (auto split: if_splits)

lemma check_line_styles_Inl:
  "check_line_styles lss = Inl e \<Longrightarrow> \<not> set lss \<subseteq> set valid_line_styles"
  by (induction lss) (auto split: if_splits)

lemma LineStyleConfig_init_Inr:
  "LineStyleConfig_init ms lss ac lw msz = Inr ls \<longleftrightarrow>
     set ms \<subseteq> set valid_markers \<and> set lss \<subseteq> set valid_line_styles \<and> 0 < lw \<and> 0 < msz \<and>
     ls = \<lparr>markers = ms, line_styles = lss, auto_cycle = ac, line_width = lw, marker_size = msz\<rparr>"
proof (cases "check_markers ms")
  case (Inl e)
  then show ?thesis
    using check_markers_Inl[OF Inl] by (simp add: LineStyleConfig_init_def)
next
  case m: (Inr u)
  show ?thesis
  proof (cases "check_line_styles lss")
    case (Inl e)
    then show ?thesis
      using check_line_styles_Inl[OF Inl] m by (simp add: LineStyleConfig_init_def)
  next
    case (Inr v)
    then show ?thesis
      using m check_markers_ok[of ms u] check_line_styles_ok[of lss v]
      by (auto simp: LineStyleConfig_init_def)
  qed
qed

text \<open>
  Claim C7. Constructing a \<open>LineStyleConfig\<close> whose marker sequence contains a symbol
  outside the closed set \<open>valid_markers\<close> always fails: whatever the other four
  arguments are, the result is the \<open>ValueError\<close> (the specification's \<open>ConfigError\<close>)
  that names an invalid entry of the sequence, so no object is built in which the
  entry has been dropped or replaced.
\<close>

theorem invalid_marker_fails_construction:
  assumes "\<exists>m\<in>set ms. m \<notin> set valid_markers"
  shows "\<exists>m\<in>set ms. m \<notin> set valid_markers \<and>
           LineStyleConfig_init ms lss ac lw msz = Inl (ValueError (Invalid_marker m))"
  using check_markers_invalid[OF assms] by (auto simp: LineStyleConfig_init_def)

theorem invalid_marker_fails_construction_witness:
  "(\<exists>m\<in>set [''o'', ''invalid_marker'']. m \<notin> set valid_markers) \<and>
   LineStyleConfig_init [''o'', ''invalid_marker''] [''-''] True 2 6 =
     Inl (ValueError (Invalid_marker ''invalid_marker''))"
proof -
  have h: "\<exists>m\<in>set [''o'', ''invalid_marker'']. m \<notin> set valid_markers"
    by (simp add: valid_markers_def)
  from invalid_marker_fails_construction[OF h, of "[''-'']" True 2 6] show ?thesis
    using h by (auto simp: valid_markers_def)
qed

text \<open>
  Claim C8, as stated, fails: \<open>OutputConfig.__post_init__\<close> has no check on \<open>dpi\<close>, and
  an \<open>OutputConfig\<close> with \<open>dpi = 0\<close> and the format \<open>png\<close> is constructed.
\<close>

theorem zero_dpi_is_accepted:
  "(0::int) \<le> 0 \<and>
   OutputConfig_init ''png'' 0 ''./output/graph.png'' =
     Inr \<lparr>format = ''png'', dpi = 0, save_path = ''./output/graph.png''\<rparr>"
  by (simp add: OutputConfig_init_def lower_def lower_char_def valid_formats_def)

text \<open>
  Claim C8, amended. Constructing an \<open>OutputConfig\<close> whose \<open>dpi\<close> is zero or negative
  does not fail on account of \<open>dpi\<close>: construction fails exactly when the lower-cased
  format is outside the closed set of formats, and with a valid format the object is
  built and stores the \<open>dpi\<close> it was given.
\<close>

theorem nonpositive_dpi_not_validated:
  assumes "d \<le> 0"
  shows "(isl (OutputConfig_init fmt d p) \<longleftrightarrow> lower fmt \<notin> set valid_formats) \<and>
         (lower fmt \<in> set valid_formats \<longrightarrow>
            OutputConfig_init fmt d p = Inr \<lparr>format = fmt, dpi = d, save_path = p\<rparr>)"
  by (simp add: OutputConfig_init_def)

theorem nonpositive_dpi_not_validated_witness:
  "(-72::int) \<le> 0 \<and> lower ''pdf'' \<in> set valid_formats \<and>
   \<not> isl (OutputConfig_init ''pdf'' (-72) ''out.pdf'') \<and>
   OutputConfig_init ''pdf'' (-72) ''out.pdf'' =
     Inr \<lparr>format = ''pdf'', dpi = -72, save_path = ''out.pdf''\<rparr>"
proof -
  have h: "(-72::int) \<le> 0" by simp
  have v: "lower ''pdf'' \<in> set valid_formats"
    by (simp add: lower_def lower_char_def valid_formats_def)
  from nonpositive_dpi_not_validated[OF h, of "''pdf''" "''out.pdf''"] v show ?thesis
    by simp
qed

text \<open>
  Claim C9, as stated, fails in its second half: the format \<open>"SVG"\<close> with \<open>dpi = 300\<close>
  is accepted, but the stored format is the caller's \<open>"SVG"\<close>, which is not its
  lower-cased form.
\<close>

theorem upper_case_format_stored_unchanged:
  "OutputConfig_init ''SVG'' 300 ''./output/graph.png'' =
     Inr \<lparr>format = ''SVG'', dpi = 300, save_path = ''./output/graph.png''\<rparr> \<and>
   ''SVG'' \<noteq> lower ''SVG''"
  by (simp add: OutputConfig_init_def lower_def lower_char_def valid_formats_def)

text \<open>
  Claim C9, amended. A format whose lower-cased form is in the closed set is accepted
  whatever its case (so \<open>"SVG"\<close> with \<open>dpi = 300\<close> is), and the stored format is the
  value that was passed, in the caller's case: matching is case-insensitive, storing
  does not normalize.
\<close>

theorem format_matched_case_insensitively:
  assumes "lower fmt \<in> set valid_formats"
  shows "\<exists>c. OutputConfig_init fmt d p = Inr c \<and> format c = fmt \<and> dpi c = d \<and> save_path c = p"
  using assms by (simp add: OutputConfig_init_def)

theorem format_matched_case_insensitively_witness:
  "lower ''SVG'' \<in> set valid_formats \<and>
   (\<exists>c. OutputConfig_init ''SVG'' 300 ''./output/graph.svg'' = Inr c \<and> format c = ''SVG'' \<and>
        dpi c = 300 \<and> save_path c = ''./output/graph.svg'')"
proof -
  have h: "lower ''SVG'' \<in> set valid_formats"
    by (simp add: lower_def lower_char_def valid_formats_def)
  from format_matched_case_insensitively[OF h, of 300 "''./output/graph.svg''"] h
  show ?thesis by simp
qed

section \<open>Layered defaulting\<close>

lemma subdicts_of_empty:
  "graph_of empty_config = empty_graph"
  "x_axis_of empty_config = empty_axis"
  "y_axis_of empty_config = empty_axis"
  "style_of empty_config = empty_style"
  "fonts_of empty_config = empty_fonts"
  "grid_of empty_config = empty_grid"
  "line_style_of empty_config = empty_line_style"
  "data_of empty_config = empty_data"
  "output_of empty_config = empty_output"
  by (simp_all add: line_style_of_def style_of_def graph_of_def get_def empty_config_def
        empty_graph_def empty_style_def x_axis_of_def y_axis_of_def fonts_of_def grid_of_def
        data_of_def output_of_def)

lemma from_dict_defaults_valid:
  "LineStyleConfig_init from_dict_markers from_dict_line_styles True 2 6 =
     Inr \<lparr>markers = from_dict_markers, line_styles = from_dict_line_styles, auto_cycle = True,
          line_width = 2, marker_size = 6\<rparr>"
  by (simp add: LineStyleConfig_init_def from_dict_markers_def from_dict_line_styles_def
        valid_markers_def valid_line_styles_def)

lemma OutputConfig_defaults_valid:
  "OutputConfig_init ''png'' 300 ''./output/graph.png'' =
     Inr \<lparr>format = ''png'', dpi = 300, save_path = ''./output/graph.png''\<rparr>"
  by (simp add: OutputConfig_init_def lower_def lower_char_def valid_formats_def)

lemma from_dict_empty:
  "from_dict stem empty_config =
     Inr \<lparr>graph =
            \<lparr>title = [],
             x_axis = \<lparr>axis_label = [], axis_min = None, axis_max = None\<rparr>,
             y_axis = \<lparr>axis_label = [], axis_min = None, axis_max = None\<rparr>,
             style = \<lparr>width = 10, height = 10,
                      fonts = \<lparr>title_size = 16, label_size = 12, legend_size = 10\<rparr>,
                      grid = \<lparr>grid_show = True\<rparr>,
                      line_style =
                        \<lparr>markers = from_dict_markers, line_styles = from_dict_line_styles,
                         auto_cycle = True, line_width = 2, marker_size = 6\<rparr>\<rparr>\<rparr>,
          data = \<lparr>sources = []\<rparr>,
          output_config =
            \<lparr>format = ''png'', dpi = 300, save_path = ''./output/graph.png''\<rparr>\<rparr>"
  unfolding from_dict_def subdicts_of_empty
  by (simp add: get_def get_nullable_def empty_line_style_def empty_graph_def empty_axis_def
        empty_style_def empty_fonts_def empty_grid_def empty_data_def empty_output_def
        from_dict_defaults_valid OutputConfig_defaults_valid)

text \<open>
  Claim C3 does not hold of the code. In the empty mapping the keys \<open>markers\<close> and
  \<open>line_styles\<close> are absent, and \<open>from_dict\<close> resolves them to the twelve markers and
  the four line styles it passes to \<open>.get\<close>, not to the defaults that the fields of
  \<open>LineStyleConfig\<close> document: the empty sequence and the single solid style.
\<close>

theorem from_dict_absent_line_style_keys:
  "k_markers (line_style_of empty_config) = None \<and>
   k_line_styles (line_style_of empty_config) = None \<and>
   (\<exists>c. from_dict stem empty_config = Inr c \<and>
      markers (line_style (style (graph c))) =
        [''o'', ''s'', ''^'', ''v'', ''<'', ''>'', ''p'', ''*'', ''+'', ''x'', ''D'', ''h''] \<and>
      markers (line_style (style (graph c))) \<noteq> default_markers \<and>
      line_styles (line_style (style (graph c))) = [''-'', ''--'', ''-.'', '':''] \<and>
      line_styles (line_style (style (graph c))) \<noteq> default_line_styles) \<and>
   LineStyleConfig_default =
     Inr \<lparr>markers = [], line_styles = [''-''], auto_cycle = True, line_width = 2,
          marker_size = 6\<rparr>"
  by (simp add: from_dict_empty subdicts_of_empty empty_line_style_def
        from_dict_markers_def from_dict_line_styles_def default_markers_def
        default_line_styles_def LineStyleConfig_default_def LineStyleConfig_init_def
        valid_markers_def valid_line_styles_def)

section \<open>Style cycling\<close>

lemma inner_loop_eq: "inner_loop m lss acc = acc @ map (Pair m) lss"
  by (induction lss arbitrary: acc) auto

lemma outer_loop_eq: "outer_loop ms lss acc = acc @ List.product ms lss"
  by (induction ms arbitrary: acc) (auto simp: inner_loop_eq)

lemma combined_styles_product: "combined_styles ms lss = List.product ms lss"
  by (simp add: combined_styles_def outer_loop_eq)

lemma product_nonempty: "ms \<noteq> [] \<Longrightarrow> lss \<noteq> [] \<Longrightarrow> List.product ms lss \<noteq> []"
  by (cases ms; cases lss) auto

lemma product_empty: "List.product ms [] = []"
  by (induction ms) auto

lemma custom_cycler_markers:
  assumes "ms \<noteq> []" "lss \<noteq> []"
  shows "custom_cycler ms lss = Inr (map (\<lambda>(m, l). (Some m, l)) (List.product ms lss))"
proof -
  have "zip (map Some (map fst (List.product ms lss))) (map snd (List.product ms lss)) =
          map (\<lambda>(m, l). (Some m, l)) (List.product ms lss)"
    by (simp add: zip_map_map split_def zip_same_conv_map)
  then show ?thesis
    using assms product_nonempty[OF assms]
    by (simp add: custom_cycler_def cycler_marker_linestyle_def combined_styles_product)
qed

lemma custom_cycler_markers_empty_line_styles:
  "ms \<noteq> [] \<Longrightarrow> custom_cycler ms [] = Inl StopIteration"
  by (simp add: custom_cycler_def cycler_marker_linestyle_def combined_styles_product
        product_empty)

lemma custom_cycler_no_markers: "custom_cycler [] lss = Inr (map (\<lambda>l. (None, l)) lss)"
  by (simp add: custom_cycler_def cycler_linestyle_def)

lemma style_and_object [simp]: "style_and (StyleObject s) p = Inr (p s)"
  by (simp add: style_and_def and_then_def)

lemma style_or_object [simp]: "style_or (StyleObject s) f d = Inr (f s)"
  by (simp add: style_or_def and_then_def)

lemma and_then_Inr [simp]: "and_then (Inr x) f = f x"
  by (simp add: and_then_def)

lemma and_then_Inl [simp]: "and_then (Inl e) f = Inl e"
  by (simp add: and_then_def)

lemma cycle_index_nonempty: "xs \<noteq> [] \<Longrightarrow> cycle_index xs i = Inr (xs ! (i mod length xs))"
  by (simp add: cycle_index_def py_mod_def py_index_def)

lemma manual_marker_object:
  "manual_marker (StyleObject s) i =
     Inr (if markers (line_style s) = [] then None
          else Some (markers (line_style s) ! (i mod length (markers (line_style s)))))"
  by (simp add: manual_marker_def cycle_index_nonempty)

lemma manual_linestyle_object:
  "manual_linestyle (StyleObject s) i =
     Inr (if line_styles (line_style s) = [] then ''-''
          else line_styles (line_style s) ! (i mod length (line_styles (line_style s))))"
  by (simp add: manual_linestyle_def cycle_index_nonempty)

lemma plot_source_skip:
  "\<not> plottable s \<Longrightarrow> \<exists>out. plot_source gt sc i s ax = (out, Inr ax)"
  by (auto simp: plottable_def plot_source_def split: option.splits frame_value.splits)

lemma plottable_cases:
  assumes "plottable s"
  obtains df lbl where "dataframe s = Some (Frame df)" "entry_label s = Some lbl"
    "\<not> df_empty df" "label_of s = lbl"
  using assms by (auto simp: plottable_def label_of_def split: option.splits frame_value.splits)

lemma plot_source_Inr_two_columns:
  assumes "plottable s" "plot_source gt sc i s ax = (out, Inr ax')"
  shows "two_columns s"
proof -
  from assms(1) obtain df lbl where s: "dataframe s = Some (Frame df)" "entry_label s = Some lbl"
    "\<not> df_empty df" "label_of s = lbl" by (rule plottable_cases)
  show ?thesis
  proof (rule ccontr)
    assume "\<not> two_columns s"
    with s have c: "\<not> 1 < length (df_columns df)" by (simp add: two_columns_def)
    have "snd (plot_source gt sc i s ax) = Inl IndexError"
      using s c by (simp add: plot_source_def py_index_def)
    with assms(2) show False by simp
  qed
qed

lemma plot_loop_Inr_two_columns:
  "plot_loop gt sc i srcs msgs ax = (msgs', Inr ax') \<Longrightarrow>
     \<forall>s\<in>set srcs. plottable s \<longrightarrow> two_columns s"
proof (induction srcs arbitrary: i msgs ax)
  case Nil
  show ?case by simp
next
  case (Cons s rest)
  obtain out r where ps: "plot_source gt sc i s ax = (out, r)" by (cases "plot_source gt sc i s ax")
  show ?case
  proof (cases r)
    case (Inl e)
    with ps Cons.prems show ?thesis by simp
  next
    case (Inr ax1)
    with ps Cons.prems have "plot_loop gt sc (Suc i) rest (msgs @ out) ax1 = (msgs', Inr ax')"
      by simp
    from Cons.IH[OF this] plot_source_Inr_two_columns[of s gt sc i ax out ax1] ps Inr
    show ?thesis by auto
  qed
qed

lemma plot_source_manual:
  assumes "plottable s" "two_columns s" "\<not> auto_cycle (line_style sc)"
  shows "\<exists>a. plot_source ''line'' (StyleObject sc) i s ax = ([], Inr (ax\<lparr>artists := artists ax @ [a]\<rparr>)) \<and>
           look a = (label_of s,
                     if markers (line_style sc) = [] then None
                     else Some (markers (line_style sc) ! (i mod length (markers (line_style sc)))),
                     Some (if line_styles (line_style sc) = [] then ''-''
                           else line_styles (line_style sc) ! (i mod length (line_styles (line_style sc)))))"
proof -
  from assms(1) obtain df lbl where s: "dataframe s = Some (Frame df)" "entry_label s = Some lbl"
    "\<not> df_empty df" "label_of s = lbl" by (rule plottable_cases)
  with assms(2) have c: "2 \<le> length (df_columns df)" by (simp add: two_columns_def)
  then have c0: "df_columns df \<noteq> []" by auto
  show ?thesis using s c c0 assms(3)
    by (fastforce simp: plot_source_def py_index_def plot_line_def manual_marker_object
          manual_linestyle_object ax_plot_def look_def line_artist_def)
qed

lemma plot_source_auto:
  assumes "plottable s" "two_columns s" "auto_cycle (line_style sc)"
      and "prop_cycle ax = Some cyc" "cyc \<noteq> []"
  shows "\<exists>a. plot_source ''line'' (StyleObject sc) i s ax =
               ([], Inr (ax\<lparr>cycle_pos := (cycle_pos ax + 1) mod length cyc,
                           artists := artists ax @ [a]\<rparr>)) \<and>
           look a = (label_of s, fst (cyc ! cycle_pos ax), Some (snd (cyc ! cycle_pos ax)))"
proof -
  from assms(1) obtain df lbl where s: "dataframe s = Some (Frame df)" "entry_label s = Some lbl"
    "\<not> df_empty df" "label_of s = lbl" by (rule plottable_cases)
  with assms(2) have c: "2 \<le> length (df_columns df)" by (simp add: two_columns_def)
  then have c0: "df_columns df \<noteq> []" by auto
  show ?thesis using s c c0 assms(3-5)
    by (fastforce simp: plot_source_def py_index_def plot_line_def ax_plot_def look_def
          line_artist_def split_def Let_def)
qed

lemma plot_loop_manual:
  assumes "\<forall>s\<in>set srcs. plottable s \<longrightarrow> two_columns s" "\<not> auto_cycle (line_style sc)"
  shows "\<exists>msgs' new. plot_loop ''line'' (StyleObject sc) i srcs msgs ax =
            (msgs', Inr (ax\<lparr>artists := artists ax @ new\<rparr>)) \<and>
          map look new =
            map (\<lambda>(j, s). (label_of s,
                   if markers (line_style sc) = [] then None
                   else Some (markers (line_style sc) ! (j mod length (markers (line_style sc)))),
                   Some (if line_styles (line_style sc) = [] then ''-''
                         else line_styles (line_style sc) ! (j mod length (line_styles (line_style sc))))))
              (filter (\<lambda>(j, s). plottable s) (enumerate i srcs))"
  using assms(1)
proof (induction srcs arbitrary: i msgs ax)
  case Nil
  show ?case by (rule exI[of _ msgs], rule exI[of _ "[]"]) simp
next
  case (Cons s rest)
  show ?case
  proof (cases "plottable s")
    case False
    then obtain out where o: "plot_source ''line'' (StyleObject sc) i s ax = (out, Inr ax)"
      using plot_source_skip by blast
    from Cons.IH[of "Suc i" "msgs @ out" ax] Cons.prems
    show ?thesis using o False by simp
  next
    case True
    from Cons.prems True have tc: "two_columns s" by simp
    from plot_source_manual[OF True tc assms(2), of i ax]
    obtain a where a: "plot_source ''line'' (StyleObject sc) i s ax = ([], Inr (ax\<lparr>artists := artists ax @ [a]\<rparr>))"
      and la: "look a = (label_of s,
                     if markers (line_style sc) = [] then None
                     else Some (markers (line_style sc) ! (i mod length (markers (line_style sc)))),
                     Some (if line_styles (line_style sc) = [] then ''-''
                           else line_styles (line_style sc) ! (i mod length (line_styles (line_style sc)))))"
      by auto
    from Cons.IH[of "Suc i" "msgs" "ax\<lparr>artists := artists ax @ [a]\<rparr>"] Cons.prems
    obtain msgs' new where
      n: "plot_loop ''line'' (StyleObject sc) (Suc i) rest msgs (ax\<lparr>artists := artists ax @ [a]\<rparr>) =
            (msgs', Inr (ax\<lparr>artists := artists ax @ [a] @ new\<rparr>))"
      and ln: "map look new =
            map (\<lambda>(j, s). (label_of s,
                   if markers (line_style sc) = [] then None
                   else Some (markers (line_style sc) ! (j mod length (markers (line_style sc)))),
                   Some (if line_styles (line_style sc) = [] then ''-''
                         else line_styles (line_style sc) ! (j mod length (line_styles (line_style sc))))))
              (filter (\<lambda>(j, s). plottable s) (enumerate (Suc i) rest))"
      by auto
    show ?thesis
      by (rule exI[of _ msgs'], rule exI[of _ "a # new"]) (simp add: a n la ln True)
  qed
qed


lemma enumerate_shift:
  "map (\<lambda>(j, s). f j s) (enumerate (Suc 0) xs) = map (\<lambda>(j, s). f (Suc j) s) (enumerate 0 xs)"
  by (simp add: enumerate_Suc_eq[of 0] split_def)

lemma plot_loop_auto:
  assumes "\<forall>s\<in>set srcs. plottable s \<longrightarrow> two_columns s" "auto_cycle (line_style sc)"
      and "prop_cycle ax = Some cyc" "cyc \<noteq> []" "cycle_pos ax < length cyc"
  shows "\<exists>msgs' ax' new. plot_loop ''line'' (StyleObject sc) i srcs msgs ax = (msgs', Inr ax') \<and>
          prop_cycle ax' = Some cyc \<and> artists ax' = artists ax @ new \<and>
          map look new =
            map (\<lambda>(j, s). (label_of s,
                            fst (cyc ! ((cycle_pos ax + j) mod length cyc)),
                            Some (snd (cyc ! ((cycle_pos ax + j) mod length cyc)))))
              (enumerate 0 (filter plottable srcs))"
  using assms(1,3,5)
proof (induction srcs arbitrary: i msgs ax)
  case Nil
  then show ?case by simp
next
  case (Cons s rest)
  show ?case
  proof (cases "plottable s")
    case False
    then obtain out where o: "plot_source ''line'' (StyleObject sc) i s ax = (out, Inr ax)"
      using plot_source_skip by blast
    from Cons.IH[of ax "Suc i" "msgs @ out"] Cons.prems
    show ?thesis using o False by simp
  next
    case True
    let ?n = "length cyc"
    let ?ax1 = "\<lambda>a. ax\<lparr>cycle_pos := (cycle_pos ax + 1) mod ?n, artists := artists ax @ [a]\<rparr>"
    from Cons.prems(1) True have tc: "two_columns s" by simp
    from plot_source_auto[OF True tc assms(2) Cons.prems(2) assms(4), of i]
    obtain a where a: "plot_source ''line'' (StyleObject sc) i s ax = ([], Inr (?ax1 a))"
      and la: "look a = (label_of s, fst (cyc ! cycle_pos ax), Some (snd (cyc ! cycle_pos ax)))"
      by auto
    have p1: "prop_cycle (?ax1 a) = Some cyc" using Cons.prems(2) by simp
    have p2: "cycle_pos (?ax1 a) < ?n" using assms(4) by simp
    from Cons.IH[of "?ax1 a" "Suc i" msgs, OF _ p1 p2] Cons.prems(1)
    obtain msgs' ax' new where
      n: "plot_loop ''line'' (StyleObject sc) (Suc i) rest msgs (?ax1 a) = (msgs', Inr ax')"
      and pc: "prop_cycle ax' = Some cyc"
      and ar: "artists ax' = artists (?ax1 a) @ new"
      and ln: "map look new =
            map (\<lambda>(j, s). (label_of s,
                            fst (cyc ! ((cycle_pos (?ax1 a) + j) mod ?n)),
                            Some (snd (cyc ! ((cycle_pos (?ax1 a) + j) mod ?n)))))
              (enumerate 0 (filter plottable rest))"
      by auto
    have shift: "\<And>j. ((cycle_pos ax + 1) mod ?n + j) mod ?n = (cycle_pos ax + Suc j) mod ?n"
      by (simp add: mod_add_left_eq)
    have "map look (a # new) =
            map (\<lambda>(j, s). (label_of s,
                            fst (cyc ! ((cycle_pos ax + j) mod ?n)),
                            Some (snd (cyc ! ((cycle_pos ax + j) mod ?n)))))
              (enumerate 0 (filter plottable (s # rest)))"
      using True la ln Cons.prems(3)
      by (simp add: enumerate_shift shift del: One_nat_def add_Suc_right)
    then show ?thesis using a n pc ar
      by (intro exI[of _ msgs'] exI[of _ ax'] exI[of _ "a # new"]) simp
  qed
qed


lemma create_graph_line_object:
  assumes "srcs \<noteq> []" "0 < width sc" "0 < height sc"
      and "setup_cycle (StyleObject sc) ''line'' new_axes = Inr ax0"
      and "plot_loop ''line'' (StyleObject sc) 0 srcs [] ax0 = (msgs, Inr ax)"
  shows "create_graph srcs ''line'' ttl xl yl (StyleObject sc) =
           (msgs, Some \<lparr>fig_size = (width sc, height sc), fig_axes = ax, fig_title = ttl,
                        fig_xlabel = xl, fig_ylabel = yl\<rparr>)"
  using assms
  by (simp add: create_graph_def supported_types_def create_graph_body_def subplots_def
        tight_layout_def)

lemma create_graph_line_object_cases:
  assumes "create_graph srcs ''line'' ttl xl yl (StyleObject sc) = (msgs, Some fig)"
  obtains ax0 where "setup_cycle (StyleObject sc) ''line'' new_axes = Inr ax0"
    and "plot_loop ''line'' (StyleObject sc) 0 srcs [] ax0 = (msgs, Inr (fig_axes fig))"
    and "srcs \<noteq> []" and "0 < width sc" and "0 < height sc"
proof -
  from assms have ne: "srcs \<noteq> []"
    by (auto simp: create_graph_def split: if_splits)
  from assms ne obtain fig' where
    b: "create_graph_body srcs ''line'' ttl xl yl (StyleObject sc) = (msgs, Inr fig')"
    and f: "fig' = fig"
    by (auto simp: create_graph_def supported_types_def split: prod.splits sum.splits)
  have w: "\<not> (width sc < 0 \<or> height sc < 0)"
  proof
    assume "width sc < 0 \<or> height sc < 0"
    then have "snd (create_graph_body srcs ''line'' ttl xl yl (StyleObject sc)) =
                 Inl (ValueError Figure_size_must_be_positive_finite)"
      by (simp add: create_graph_body_def subplots_def)
    with b show False by simp
  qed
  then have sp: "subplots (width sc, height sc) = Inr new_axes" by (simp add: subplots_def)
  obtain r0 where r0: "setup_cycle (StyleObject sc) ''line'' new_axes = r0" by simp
  show ?thesis
  proof (cases r0)
    case (Inl e)
    with r0 sp have "snd (create_graph_body srcs ''line'' ttl xl yl (StyleObject sc)) = Inl e"
      by (simp add: create_graph_body_def)
    with b show ?thesis by simp
  next
    case (Inr ax0)
    obtain ms' r where l: "plot_loop ''line'' (StyleObject sc) 0 srcs [] ax0 = (ms', r)"
      by (cases "plot_loop ''line'' (StyleObject sc) 0 srcs [] ax0")
    show ?thesis
    proof (cases r)
      case (Inl e)
      with r0 sp l \<open>r0 = Inr ax0\<close>
      have "snd (create_graph_body srcs ''line'' ttl xl yl (StyleObject sc)) = Inl e"
        by (simp add: create_graph_body_def)
      with b show ?thesis by simp
    next
      case (Inr ax')
      have z: "\<not> (width sc = 0 \<or> height sc = 0)"
      proof
        assume "width sc = 0 \<or> height sc = 0"
        with r0 sp l Inr \<open>r0 = Inr ax0\<close>
        have "snd (create_graph_body srcs ''line'' ttl xl yl (StyleObject sc)) =
                Inl BackendException"
          by (simp add: create_graph_body_def tight_layout_def)
        with b show False by simp
      qed
      with r0 sp l Inr \<open>r0 = Inr ax0\<close>
      have "create_graph_body srcs ''line'' ttl xl yl (StyleObject sc) =
              (ms', Inr \<lparr>fig_size = (width sc, height sc), fig_axes = ax', fig_title = ttl,
                          fig_xlabel = xl, fig_ylabel = yl\<rparr>)"
        by (simp add: create_graph_body_def tight_layout_def)
      with b f have "ms' = msgs" "fig_axes fig = ax'" by auto
      with l Inr r0 \<open>r0 = Inr ax0\<close> ne w z that[of ax0] show ?thesis by auto
    qed
  qed
qed

lemma setup_cycle_auto:
  assumes "auto_cycle (line_style sc)"
  shows "setup_cycle (StyleObject sc) ''line'' ax =
           and_then (custom_cycler (markers (line_style sc)) (line_styles (line_style sc)))
             (\<lambda>c. Inr (set_prop_cycle c ax))"
  using assms by (simp add: setup_cycle_def)

lemma setup_cycle_manual:
  assumes "\<not> auto_cycle (line_style sc)"
  shows "setup_cycle (StyleObject sc) ''line'' ax = Inr ax"
  using assms by (simp add: setup_cycle_def)

lemma scenario_facts:
  "scenario_sources \<noteq> []"
  "\<forall>s\<in>set scenario_sources. plottable s \<longrightarrow> two_columns s"
  "filter plottable scenario_sources = scenario_sources"
  "\<forall>s\<in>set scenario_sources. distinct_columns s"
  by (simp_all add: scenario_sources_def two_columns_def plottable_def df_empty_def
        df_columns_def distinct_columns_def)

lemma scenario_sizes:
  "0 < width (scenario_style ac)" "0 < height (scenario_style ac)"
  "auto_cycle (line_style (scenario_style ac)) = ac"
  "markers (line_style (scenario_style ac)) = [''o'', ''s'']"
  "line_styles (line_style (scenario_style ac)) = [''-'', ''--'', ''-.'']"
  by (simp_all add: scenario_style_def)

lemma scenario_figure:
  "\<exists>msgs fig. create_graph scenario_sources ''line'' ''T'' ''X'' ''Y''
                 (StyleObject (scenario_style ac)) = (msgs, Some fig)"
proof (cases ac)
  case True
  let ?sc = "scenario_style ac"
  let ?cyc = "map (\<lambda>(m, l). (Some m, l)) (List.product [''o'', ''s''] [''-'', ''--'', ''-.''])"
  let ?ax0 = "set_prop_cycle ?cyc new_axes"
  have a: "auto_cycle (line_style ?sc)" using True by (simp add: scenario_sizes)
  have cc: "custom_cycler [''o'', ''s''] [''-'', ''--'', ''-.''] = Inr ?cyc"
    by (rule custom_cycler_markers) simp_all
  have s0: "setup_cycle (StyleObject ?sc) ''line'' new_axes = Inr ?ax0"
    unfolding setup_cycle_auto[OF a] scenario_sizes cc by simp
  have p0: "prop_cycle ?ax0 = Some ?cyc" by (simp add: set_prop_cycle_def)
  have ne: "?cyc \<noteq> []" by simp
  have p1: "cycle_pos ?ax0 < length ?cyc" by (simp add: set_prop_cycle_def)
  from plot_loop_auto[OF scenario_facts(2) a p0 ne p1, of 0 "[]"]
  obtain msgs ax where
    "plot_loop ''line'' (StyleObject ?sc) 0 scenario_sources [] ?ax0 = (msgs, Inr ax)"
    by blast
  from create_graph_line_object[OF scenario_facts(1) scenario_sizes(1,2) s0 this]
  show ?thesis by blast
next
  case False
  let ?sc = "scenario_style ac"
  have a: "\<not> auto_cycle (line_style ?sc)" using False by (simp add: scenario_sizes)
  from plot_loop_manual[OF scenario_facts(2) a, of 0 "[]" new_axes]
  obtain msgs ax where
    "plot_loop ''line'' (StyleObject ?sc) 0 scenario_sources [] new_axes = (msgs, Inr ax)"
    by blast
  from create_graph_line_object[OF scenario_facts(1) scenario_sizes(1,2)
         setup_cycle_manual[OF a] this]
  show ?thesis by blast
qed

text \<open>
  Claim C1. On a line chart in auto-cycle mode with a non-empty marker sequence of
  length \<open>m\<close> and a dash-pattern sequence of length \<open>d\<close>, take a batch whose frames
  have distinct column names, so that each plotting call draws one series, and for
  which \<open>create_graph\<close> returns a figure. Then \<open>d > 0\<close>, and the cycle handed to the
  backend is the Cartesian product enumerated marker-major: the markers in the outer
  loop, the dash patterns in the inner one, so that element \<open>k\<close> is
  \<open>(markers[k div d], line_styles[k mod d])\<close>; and the series at index \<open>i\<close> receives
  element \<open>i mod (m * d)\<close> of that enumeration. The index counts the series in the
  order in which they are drawn; when every source of the batch is drawn it is the
  position in the input. For the markers \<open>["o", "s"]\<close> and the patterns
  \<open>["-", "--", "-."]\<close> the figure is returned and the series 0 to 3 receive
  \<open>(o, -)\<close>, \<open>(o, --)\<close>, \<open>(o, -.)\<close> and \<open>(s, -)\<close>, which is the witness.
\<close>

theorem auto_cycle_cartesian:
  assumes "auto_cycle (line_style sc)"
      and "markers (line_style sc) = ms" "line_styles (line_style sc) = lss"
      and "ms \<noteq> []"
      and "\<forall>s\<in>set srcs. distinct_columns s"
      and "create_graph srcs ''line'' ttl xl yl (StyleObject sc) = (msgs, Some fig)"
  shows "lss \<noteq> [] \<and>
         prop_cycle (fig_axes fig) = Some (map (\<lambda>(m, l). (Some m, l)) (combined_styles ms lss)) \<and>
         combined_styles ms lss = concat (map (\<lambda>m. map (\<lambda>l. (m, l)) lss) ms) \<and>
         length (combined_styles ms lss) = length ms * length lss \<and>
         (\<forall>k < length ms * length lss.
            combined_styles ms lss ! k = (ms ! (k div length lss), lss ! (k mod length lss))) \<and>
         map look (artists (fig_axes fig)) =
           map (\<lambda>(i, s). (label_of s,
                  Some (fst (combined_styles ms lss ! (i mod (length ms * length lss)))),
                  Some (snd (combined_styles ms lss ! (i mod (length ms * length lss))))))
             (enumerate 0 (filter plottable srcs)) \<and>
         ((\<forall>s\<in>set srcs. plottable s) \<longrightarrow>
            length (artists (fig_axes fig)) = length srcs \<and>
            (\<forall>i < length srcs.
               look (artists (fig_axes fig) ! i) =
                 (label_of (srcs ! i),
                  Some (fst (combined_styles ms lss ! (i mod (length ms * length lss)))),
                  Some (snd (combined_styles ms lss ! (i mod (length ms * length lss)))))))"
proof -
  let ?cyc = "map (\<lambda>(m, l). (Some m, l)) (List.product ms lss)"
  let ?n = "length ms * length lss"
  let ?ax0 = "set_prop_cycle ?cyc new_axes"
  from assms(6) obtain ax0 where
    s0: "setup_cycle (StyleObject sc) ''line'' new_axes = Inr ax0"
    and l0: "plot_loop ''line'' (StyleObject sc) 0 srcs [] ax0 = (msgs, Inr (fig_axes fig))"
    by (rule create_graph_line_object_cases)
  have s1: "and_then (custom_cycler ms lss) (\<lambda>c. Inr (set_prop_cycle c new_axes)) = Inr ax0"
    using s0 unfolding setup_cycle_auto[OF assms(1)] assms(2,3) .
  have lne: "lss \<noteq> []"
  proof
    assume "lss = []"
    with s1 custom_cycler_markers_empty_line_styles[OF assms(4)] show False by simp
  qed
  have cc: "custom_cycler ms lss = Inr ?cyc" using assms(4) lne by (rule custom_cycler_markers)
  have ax0: "ax0 = ?ax0" using s1 unfolding cc by simp
  have l: "plot_loop ''line'' (StyleObject sc) 0 srcs [] ?ax0 = (msgs, Inr (fig_axes fig))"
    using l0 unfolding ax0 .
  have tc: "\<forall>s\<in>set srcs. plottable s \<longrightarrow> two_columns s"
    using l by (rule plot_loop_Inr_two_columns)
  have ne: "?cyc \<noteq> []" using product_nonempty[OF assms(4) lne] by simp
  have len: "length ?cyc = ?n" by simp
  have npos: "0 < ?n" using assms(4) lne by simp
  have p0: "prop_cycle ?ax0 = Some ?cyc" by (simp add: set_prop_cycle_def)
  have p1: "cycle_pos ?ax0 < length ?cyc" using npos by (simp add: set_prop_cycle_def)
  from plot_loop_auto[OF tc assms(1) p0 ne p1, of 0 "[]"]
  obtain msgs' ax new where
    l': "plot_loop ''line'' (StyleObject sc) 0 srcs [] ?ax0 = (msgs', Inr ax)"
    and pc: "prop_cycle ax = Some ?cyc"
    and ar: "artists ax = artists ?ax0 @ new"
    and ln: "map look new =
            map (\<lambda>(j, s). (label_of s,
                            fst (?cyc ! ((cycle_pos ?ax0 + j) mod length ?cyc)),
                            Some (snd (?cyc ! ((cycle_pos ?ax0 + j) mod length ?cyc)))))
              (enumerate 0 (filter plottable srcs))"
    by blast
  have axe: "ax = fig_axes fig" using l l' by simp
  have ar': "artists ax = new" using ar by (simp add: set_prop_cycle_def new_axes_def)
  have nth: "\<And>j. ?cyc ! (j mod ?n) =
                 (Some (fst (List.product ms lss ! (j mod ?n))), snd (List.product ms lss ! (j mod ?n)))"
    using npos by (simp add: split_def)
  have looks: "map look (artists ax) =
             map (\<lambda>(i, s). (label_of s,
                    Some (fst (List.product ms lss ! (i mod ?n))),
                    Some (snd (List.product ms lss ! (i mod ?n)))))
               (enumerate 0 (filter plottable srcs))"
    unfolding ar' ln using nth by (simp add: set_prop_cycle_def new_axes_def split_def)
  have all: "(\<forall>s\<in>set srcs. plottable s) \<longrightarrow>
              length (artists ax) = length srcs \<and>
              (\<forall>i < length srcs.
                 look (artists ax ! i) =
                   (label_of (srcs ! i),
                    Some (fst (List.product ms lss ! (i mod ?n))),
                    Some (snd (List.product ms lss ! (i mod ?n)))))"
  proof (intro impI)
    assume a: "\<forall>s\<in>set srcs. plottable s"
    then have f: "filter plottable srcs = srcs" by simp
    have L: "length (artists ax) = length srcs"
      using arg_cong[OF looks, of length] by (simp add: f)
    have "\<And>i. i < length srcs \<Longrightarrow> look (artists ax ! i) =
                   (label_of (srcs ! i),
                    Some (fst (List.product ms lss ! (i mod ?n))),
                    Some (snd (List.product ms lss ! (i mod ?n))))"
    proof -
      fix i assume i: "i < length srcs"
      have "look (artists ax ! i) = map look (artists ax) ! i" using i L by simp
      also have "\<dots> = (label_of (srcs ! i),
                    Some (fst (List.product ms lss ! (i mod ?n))),
                    Some (snd (List.product ms lss ! (i mod ?n))))"
        unfolding looks f using i by (simp add: nth_enumerate_eq)
      finally show "look (artists ax ! i) =
                   (label_of (srcs ! i),
                    Some (fst (List.product ms lss ! (i mod ?n))),
                    Some (snd (List.product ms lss ! (i mod ?n))))" .
    qed
    with L show "length (artists ax) = length srcs \<and>
              (\<forall>i < length srcs.
                 look (artists ax ! i) =
                   (label_of (srcs ! i),
                    Some (fst (List.product ms lss ! (i mod ?n))),
                    Some (snd (List.product ms lss ! (i mod ?n)))))" by blast
  qed
  have enum: "List.product ms lss = concat (map (\<lambda>m. map (\<lambda>l. (m, l)) lss) ms)"
    by (induction ms) auto
  have nthp: "\<forall>k < ?n. List.product ms lss ! k = (ms ! (k div length lss), lss ! (k mod length lss))"
    by (simp add: product_nth)
  have lenp: "length (List.product ms lss) = ?n" by simp
  show ?thesis
    unfolding combined_styles_product axe[symmetric]
    by (intro conjI) (use lne pc looks all enum nthp lenp in simp_all)
qed

theorem auto_cycle_cartesian_witness:
  "auto_cycle (line_style (scenario_style True)) \<and>
   markers (line_style (scenario_style True)) = [''o'', ''s''] \<and>
   line_styles (line_style (scenario_style True)) = [''-'', ''--'', ''-.''] \<and>
   [''o'', ''s''] \<noteq> ([] :: string list) \<and>
   list_all distinct_columns scenario_sources \<and>
   list_all plottable scenario_sources \<and>
   combined_styles [''o'', ''s''] [''-'', ''--'', ''-.''] =
     [(''o'', ''-''), (''o'', ''--''), (''o'', ''-.''), (''s'', ''-''), (''s'', ''--''), (''s'', ''-.'')] \<and>
   (\<exists>msgs fig.
      create_graph scenario_sources ''line'' ''T'' ''X'' ''Y'' (StyleObject (scenario_style True)) =
        (msgs, Some fig) \<and>
      map look (artists (fig_axes fig)) =
        [(''s0'', Some ''o'', Some ''-''), (''s1'', Some ''o'', Some ''--''),
         (''s2'', Some ''o'', Some ''-.''), (''s3'', Some ''s'', Some ''-'')])"
proof -
  have h1: "auto_cycle (line_style (scenario_style True))" by (simp add: scenario_style_def)
  have h2: "markers (line_style (scenario_style True)) = [''o'', ''s'']"
    by (simp add: scenario_style_def)
  have h3: "line_styles (line_style (scenario_style True)) = [''-'', ''--'', ''-.'']"
    by (simp add: scenario_style_def)
  have h4: "[''o'', ''s''] \<noteq> ([] :: string list)" by simp
  have pl: "list_all plottable scenario_sources"
    by (simp add: scenario_sources_def plottable_def df_empty_def)
  have dc: "list_all distinct_columns scenario_sources"
    using scenario_facts(4) by (simp add: list_all_iff)
  have cs: "combined_styles [''o'', ''s''] [''-'', ''--'', ''-.''] =
     [(''o'', ''-''), (''o'', ''--''), (''o'', ''-.''), (''s'', ''-''), (''s'', ''--''), (''s'', ''-.'')]"
    by (simp add: combined_styles_def)
  from scenario_figure[of True] obtain msgs fig where
    cg: "create_graph scenario_sources ''line'' ''T'' ''X'' ''Y'' (StyleObject (scenario_style True)) =
        (msgs, Some fig)"
    by blast
  from auto_cycle_cartesian[OF h1 h2 h3 h4 scenario_facts(4) cg]
  have lk: "map look (artists (fig_axes fig)) =
             map (\<lambda>(i, s). (label_of s,
                    Some (fst (combined_styles [''o'', ''s''] [''-'', ''--'', ''-.''] !
                      (i mod (length [''o'', ''s''] * length [''-'', ''--'', ''-.''])))),
                    Some (snd (combined_styles [''o'', ''s''] [''-'', ''--'', ''-.''] !
                      (i mod (length [''o'', ''s''] * length [''-'', ''--'', ''-.'']))))))
               (enumerate 0 (filter plottable scenario_sources))"
    by blast
  have "map look (artists (fig_axes fig)) =
        [(''s0'', Some ''o'', Some ''-''), (''s1'', Some ''o'', Some ''--''),
         (''s2'', Some ''o'', Some ''-.''), (''s3'', Some ''s'', Some ''-'')]"
    unfolding lk cs scenario_facts(3)
    by (simp add: scenario_sources_def label_of_def enumerate_eq_zip upt_rec)
  with cg have ex: "\<exists>msgs fig.
      create_graph scenario_sources ''line'' ''T'' ''X'' ''Y'' (StyleObject (scenario_style True)) =
        (msgs, Some fig) \<and>
      map look (artists (fig_axes fig)) =
        [(''s0'', Some ''o'', Some ''-''), (''s1'', Some ''o'', Some ''--''),
         (''s2'', Some ''o'', Some ''-.''), (''s3'', Some ''s'', Some ''-'')]"
    by - (rule exI[of _ msgs], rule exI[of _ fig], simp)
  from h1 h2 h3 h4 dc pl cs ex show ?thesis by (intro conjI)
qed

text \<open>
  Claim C2. On a line chart in manual mode, take a batch whose frames have distinct
  column names, so that each plotting call draws one series, and for which
  \<open>create_graph\<close> returns a figure. Then the series at position \<open>i\<close> of the input has
  the marker \<open>markers[i mod len(markers)]\<close> when the marker sequence is non-empty and
  no marker otherwise, and the dash pattern \<open>line_styles[i mod len(line_styles)]\<close>
  when that sequence is non-empty and the solid \<open>"-"\<close> otherwise. The two sequences
  are indexed independently of each other: for the markers \<open>["o", "s"]\<close> and the
  patterns \<open>["-", "--", "-."]\<close> the figure is returned and the series 0 to 3 receive
  \<open>(o, -)\<close>, \<open>(s, --)\<close>, \<open>(o, -.)\<close> and \<open>(s, -)\<close>, which is the witness.
\<close>

theorem manual_independent_indexing:
  assumes "\<not> auto_cycle (line_style sc)"
      and "markers (line_style sc) = ms" "line_styles (line_style sc) = lss"
      and "\<forall>s\<in>set srcs. distinct_columns s"
      and "create_graph srcs ''line'' ttl xl yl (StyleObject sc) = (msgs, Some fig)"
  shows "map look (artists (fig_axes fig)) =
           map (\<lambda>(i, s). (label_of s,
                  if ms = [] then None else Some (ms ! (i mod length ms)),
                  Some (if lss = [] then ''-'' else lss ! (i mod length lss))))
             (filter (\<lambda>(i, s). plottable s) (enumerate 0 srcs)) \<and>
         ((\<forall>s\<in>set srcs. plottable s) \<longrightarrow>
            length (artists (fig_axes fig)) = length srcs \<and>
            (\<forall>i < length srcs.
               look (artists (fig_axes fig) ! i) =
                 (label_of (srcs ! i),
                  if ms = [] then None else Some (ms ! (i mod length ms)),
                  Some (if lss = [] then ''-'' else lss ! (i mod length lss)))))"
proof -
  let ?f = "\<lambda>(i::nat, s). (label_of s,
                    if ms = [] then None else Some (ms ! (i mod length ms)),
                    Some (if lss = [] then ''-'' else lss ! (i mod length lss)))"
  from assms(5) obtain ax0 where
    s0: "setup_cycle (StyleObject sc) ''line'' new_axes = Inr ax0"
    and l0: "plot_loop ''line'' (StyleObject sc) 0 srcs [] ax0 = (msgs, Inr (fig_axes fig))"
    by (rule create_graph_line_object_cases)
  have ax0: "ax0 = new_axes" using s0 unfolding setup_cycle_manual[OF assms(1)] by simp
  have l1: "plot_loop ''line'' (StyleObject sc) 0 srcs [] new_axes = (msgs, Inr (fig_axes fig))"
    using l0 unfolding ax0 .
  have tc: "\<forall>s\<in>set srcs. plottable s \<longrightarrow> two_columns s"
    using l1 by (rule plot_loop_Inr_two_columns)
  from plot_loop_manual[OF tc assms(1), of 0 "[]" new_axes]
  obtain msgs' new where
    l: "plot_loop ''line'' (StyleObject sc) 0 srcs [] new_axes =
          (msgs', Inr (new_axes\<lparr>artists := artists new_axes @ new\<rparr>))"
    and ln: "map look new = map ?f (filter (\<lambda>(j, s). plottable s) (enumerate 0 srcs))"
    unfolding assms(2,3) by blast
  have axe: "fig_axes fig = new_axes\<lparr>artists := artists new_axes @ new\<rparr>" using l l1 by simp
  have ar: "artists (fig_axes fig) = new" unfolding axe by (simp add: new_axes_def)
  have all: "(\<forall>s\<in>set srcs. plottable s) \<longrightarrow>
              length new = length srcs \<and> (\<forall>i < length srcs. look (new ! i) = ?f (i, srcs ! i))"
  proof (intro impI)
    assume a: "\<forall>s\<in>set srcs. plottable s"
    then have f: "filter (\<lambda>(j, s). plottable s) (enumerate 0 srcs) = enumerate 0 srcs"
      by (auto simp: filter_id_conv in_set_enumerate_eq)
    have L: "length new = length srcs" using arg_cong[OF ln, of length] by (simp add: f)
    have "\<And>i. i < length srcs \<Longrightarrow> look (new ! i) = ?f (i, srcs ! i)"
    proof -
      fix i assume i: "i < length srcs"
      have "look (new ! i) = map look new ! i" using i L by simp
      also have "\<dots> = ?f (i, srcs ! i)" unfolding ln f using i by (simp add: nth_enumerate_eq)
      finally show "look (new ! i) = ?f (i, srcs ! i)" .
    qed
    with L show "length new = length srcs \<and> (\<forall>i < length srcs. look (new ! i) = ?f (i, srcs ! i))"
      by blast
  qed
  show ?thesis unfolding ar using ln all by simp
qed

theorem manual_independent_indexing_witness:
  "\<not> auto_cycle (line_style (scenario_style False)) \<and>
   markers (line_style (scenario_style False)) = [''o'', ''s''] \<and>
   line_styles (line_style (scenario_style False)) = [''-'', ''--'', ''-.''] \<and>
   list_all distinct_columns scenario_sources \<and>
   (\<exists>msgs fig.
      create_graph scenario_sources ''line'' ''T'' ''X'' ''Y'' (StyleObject (scenario_style False)) =
        (msgs, Some fig) \<and>
      map look (artists (fig_axes fig)) =
        [(''s0'', Some ''o'', Some ''-''), (''s1'', Some ''s'', Some ''--''),
         (''s2'', Some ''o'', Some ''-.''), (''s3'', Some ''s'', Some ''-'')])"
proof -
  have h1: "\<not> auto_cycle (line_style (scenario_style False))" by (simp add: scenario_style_def)
  have h2: "markers (line_style (scenario_style False)) = [''o'', ''s'']"
    by (simp add: scenario_style_def)
  have h3: "line_styles (line_style (scenario_style False)) = [''-'', ''--'', ''-.'']"
    by (simp add: scenario_style_def)
  have dc: "list_all distinct_columns scenario_sources"
    using scenario_facts(4) by (simp add: list_all_iff)
  from scenario_figure[of False] obtain msgs fig where
    cg: "create_graph scenario_sources ''line'' ''T'' ''X'' ''Y'' (StyleObject (scenario_style False)) =
        (msgs, Some fig)"
    by blast
  from manual_independent_indexing[OF h1 h2 h3 scenario_facts(4) cg]
  have lk: "map look (artists (fig_axes fig)) =
             map (\<lambda>(i, s). (label_of s,
                    if [''o'', ''s''] = ([] :: string list) then None
                    else Some ([''o'', ''s''] ! (i mod length [''o'', ''s''])),
                    Some (if [''-'', ''--'', ''-.''] = ([] :: string list) then ''-''
                          else [''-'', ''--'', ''-.''] ! (i mod length [''-'', ''--'', ''-.'']))))
               (filter (\<lambda>(i, s). plottable s) (enumerate 0 scenario_sources))"
    by blast
  have "map look (artists (fig_axes fig)) =
        [(''s0'', Some ''o'', Some ''-''), (''s1'', Some ''s'', Some ''--''),
         (''s2'', Some ''o'', Some ''-.''), (''s3'', Some ''s'', Some ''-'')]"
    unfolding lk
    by (simp add: scenario_sources_def label_of_def plottable_def df_empty_def mod_Suc)
  with cg have ex: "\<exists>msgs fig.
      create_graph scenario_sources ''line'' ''T'' ''X'' ''Y'' (StyleObject (scenario_style False)) =
        (msgs, Some fig) \<and>
      map look (artists (fig_axes fig)) =
        [(''s0'', Some ''o'', Some ''-''), (''s1'', Some ''s'', Some ''--''),
         (''s2'', Some ''o'', Some ''-.''), (''s3'', Some ''s'', Some ''-'')]"
    by - (rule exI[of _ msgs], rule exI[of _ fig], simp)
  from h1 h2 h3 dc ex show ?thesis by (intro conjI)
qed

lemma plot_line_manual:
  assumes "\<not> auto_cycle (line_style sc)"
  shows "\<exists>a. plot_line (StyleObject sc) i x y lbl ax = Inr (ax\<lparr>artists := artists ax @ [a]\<rparr>) \<and>
             art_marker a =
               (if markers (line_style sc) = [] then None
                else Some (markers (line_style sc) ! (i mod length (markers (line_style sc))))) \<and>
             art_linestyle a =
               Some (if line_styles (line_style sc) = [] then ''-''
                     else line_styles (line_style sc) ! (i mod length (line_styles (line_style sc))))"
  using assms
  by (fastforce simp: plot_line_def manual_marker_object manual_linestyle_object ax_plot_def
        line_artist_def)

lemma plot_line_auto:
  assumes "auto_cycle (line_style sc)" "prop_cycle ax = Some cyc" "cyc \<noteq> []"
  shows "\<exists>a. plot_line (StyleObject sc) i x y lbl ax =
               Inr (ax\<lparr>cycle_pos := (cycle_pos ax + 1) mod length cyc,
                       artists := artists ax @ [a]\<rparr>) \<and>
             art_marker a = fst (cyc ! cycle_pos ax) \<and>
             art_linestyle a = Some (snd (cyc ! cycle_pos ax))"
  using assms
  by (fastforce simp: plot_line_def ax_plot_def line_artist_def split_def Let_def)

lemma plot_scatter_object:
  "\<exists>a. plot_scatter (StyleObject sc) i x y lbl ax = Inr (ax\<lparr>artists := artists ax @ [a]\<rparr>) \<and>
        art_marker a =
          Some (if markers (line_style sc) = [] then ''o''
                else markers (line_style sc) ! (i mod length (markers (line_style sc))))"
  by (fastforce simp: plot_scatter_def cycle_index_nonempty ax_scatter_def)

text \<open>
  Claim C5, as stated, fails. Construction does not guarantee a non-empty
  dash-pattern sequence: the defaults fill in an absent key only, and a
  \<open>LineStyleConfig\<close> given the empty list of line styles is accepted. In auto-cycle
  mode that configuration installs a cycle without elements, the plotting call of
  the first series finds no style to assign, and \<open>create_graph\<close> returns \<open>None\<close>.
\<close>

theorem auto_cycle_empty_line_styles_errors:
  "LineStyleConfig_init [] [] True 2 6 =
     Inr \<lparr>markers = [], line_styles = [], auto_cycle = True, line_width = 2, marker_size = 6\<rparr> \<and>
   line_styles (line_style (style_with
      \<lparr>markers = [], line_styles = [], auto_cycle = True, line_width = 2, marker_size = 6\<rparr>)) = [] \<and>
   setup_cycle (StyleObject (style_with
      \<lparr>markers = [], line_styles = [], auto_cycle = True, line_width = 2, marker_size = 6\<rparr>))
     ''line'' new_axes = Inr (set_prop_cycle [] new_axes) \<and>
   plot_line (StyleObject (style_with
      \<lparr>markers = [], line_styles = [], auto_cycle = True, line_width = 2, marker_size = 6\<rparr>))
     0 [1, 2] [3, 4] ''s0'' (set_prop_cycle [] new_axes) = Inl StopIteration \<and>
   snd (create_graph
          [\<lparr>dataframe = Some (Frame [(''x'', [1, 2]), (''y'', [3, 4])]), entry_label = Some ''s0''\<rparr>]
          ''line'' ''T'' ''X'' ''Y''
          (StyleObject (style_with
             \<lparr>markers = [], line_styles = [], auto_cycle = True, line_width = 2,
              marker_size = 6\<rparr>))) = None"
  by (simp add: LineStyleConfig_init_def style_with_def setup_cycle_def custom_cycler_def
        cycler_linestyle_def plot_line_def ax_plot_def set_prop_cycle_def new_axes_def
        create_graph_def supported_types_def create_graph_body_def subplots_def
        plot_source_def df_empty_def df_columns_def py_index_def)

text \<open>
  Claim C5, amended. Style resolution does not rest on the dash-pattern sequence
  being non-empty, which construction does not guarantee. For every
  \<open>LineStyleConfig\<close> accepted at construction time and every series index \<open>i\<close>:
  manual mode tests each sequence for emptiness before it indexes it, so the marker
  is none when there are no markers and the valid symbol \<open>markers[i mod m]\<close>
  otherwise, the dash pattern is \<open>"-"\<close> when the sequence is empty and
  \<open>line_styles[i mod d]\<close> otherwise, a valid pattern in both cases, and the plotting
  call of manual mode returns a series with that marker and pattern; in auto-cycle
  mode with a non-empty dash-pattern sequence the cycle is built, it has an element
  for every position, its patterns are valid, and the plotting call returns a series
  with the element at the current position and moves to the next position of the
  cycle; and on a scatter chart the marker is \<open>"o"\<close> when there are no markers and
  \<open>markers[i mod m]\<close> otherwise.
\<close>

theorem style_resolution_defined:
  assumes "LineStyleConfig_init ms lss ac lw msz = Inr ls" and "line_style sc = ls"
  shows "(\<exists>mk st.
            manual_marker (StyleObject sc) i = Inr mk \<and>
            manual_linestyle (StyleObject sc) i = Inr st \<and>
            (case mk of None \<Rightarrow> ms = []
             | Some m \<Rightarrow> ms \<noteq> [] \<and> m = ms ! (i mod length ms) \<and> m \<in> set valid_markers) \<and>
            st = (if lss = [] then ''-'' else lss ! (i mod length lss)) \<and>
            st \<in> set valid_line_styles \<and>
            (\<not> ac \<longrightarrow>
               (\<exists>a. plot_line (StyleObject sc) i x y lbl ax =
                       Inr (ax\<lparr>artists := artists ax @ [a]\<rparr>) \<and>
                     art_marker a = mk \<and> art_linestyle a = Some st))) \<and>
         (ac \<longrightarrow> lss \<noteq> [] \<longrightarrow>
            (\<exists>cyc. setup_cycle (StyleObject sc) ''line'' new_axes =
                      Inr (set_prop_cycle cyc new_axes) \<and>
                    cyc = (if ms = [] then map (\<lambda>l. (None, l)) lss
                           else map (\<lambda>(m, l). (Some m, l)) (combined_styles ms lss)) \<and>
                    cyc \<noteq> [] \<and>
                    (\<forall>c\<in>set cyc. snd c \<in> set valid_line_styles) \<and>
                    (prop_cycle ax = Some cyc \<longrightarrow> cycle_pos ax < length cyc \<longrightarrow>
                       (\<exists>a. plot_line (StyleObject sc) i x y lbl ax =
                               Inr (ax\<lparr>cycle_pos := (cycle_pos ax + 1) mod length cyc,
                                       artists := artists ax @ [a]\<rparr>) \<and>
                             art_marker a = fst (cyc ! cycle_pos ax) \<and>
                             art_linestyle a = Some (snd (cyc ! cycle_pos ax)) \<and>
                             snd (cyc ! cycle_pos ax) \<in> set valid_line_styles)))) \<and>
         (\<exists>a. plot_scatter (StyleObject sc) i x y lbl ax =
                 Inr (ax\<lparr>artists := artists ax @ [a]\<rparr>) \<and>
               art_marker a = Some (if ms = [] then ''o'' else ms ! (i mod length ms)))"
proof -
  from assms(1) have v: "set ms \<subseteq> set valid_markers" "set lss \<subseteq> set valid_line_styles"
    and ls: "ls = \<lparr>markers = ms, line_styles = lss, auto_cycle = ac, line_width = lw,
                  marker_size = msz\<rparr>"
    by (simp_all add: LineStyleConfig_init_Inr)
  have f: "markers (line_style sc) = ms" "line_styles (line_style sc) = lss"
    "auto_cycle (line_style sc) = ac"
    using ls assms(2) by simp_all
  have m: "ms \<noteq> [] \<Longrightarrow> ms ! (i mod length ms) \<in> set valid_markers"
    using v(1) by (meson length_greater_0_conv mod_less_divisor nth_mem subsetD)
  have l1: "lss \<noteq> [] \<Longrightarrow> lss ! (i mod length lss) \<in> set valid_line_styles"
    using v(2) by (meson length_greater_0_conv mod_less_divisor nth_mem subsetD)
  have l2: "''-'' \<in> set valid_line_styles" by (simp add: valid_line_styles_def)
  let ?mk = "if ms = [] then None else Some (ms ! (i mod length ms))"
  let ?st = "if lss = [] then ''-'' else lss ! (i mod length lss)"
  have p: "\<not> ac \<longrightarrow>
             (\<exists>a. plot_line (StyleObject sc) i x y lbl ax =
                     Inr (ax\<lparr>artists := artists ax @ [a]\<rparr>) \<and>
                   art_marker a = ?mk \<and> art_linestyle a = Some ?st)"
  proof
    assume "\<not> ac"
    then have "\<not> auto_cycle (line_style sc)" using f by simp
    from plot_line_manual[OF this, of i x y lbl ax]
    show "\<exists>a. plot_line (StyleObject sc) i x y lbl ax =
                     Inr (ax\<lparr>artists := artists ax @ [a]\<rparr>) \<and>
                   art_marker a = ?mk \<and> art_linestyle a = Some ?st"
      unfolding f .
  qed
  have manual: "\<exists>mk st.
            manual_marker (StyleObject sc) i = Inr mk \<and>
            manual_linestyle (StyleObject sc) i = Inr st \<and>
            (case mk of None \<Rightarrow> ms = []
             | Some m \<Rightarrow> ms \<noteq> [] \<and> m = ms ! (i mod length ms) \<and> m \<in> set valid_markers) \<and>
            st = (if lss = [] then ''-'' else lss ! (i mod length lss)) \<and>
            st \<in> set valid_line_styles \<and>
            (\<not> ac \<longrightarrow>
               (\<exists>a. plot_line (StyleObject sc) i x y lbl ax =
                       Inr (ax\<lparr>artists := artists ax @ [a]\<rparr>) \<and>
                     art_marker a = mk \<and> art_linestyle a = Some st))"
    by (rule exI[of _ ?mk], rule exI[of _ ?st])
       (use m l1 l2 p f in \<open>simp add: manual_marker_object manual_linestyle_object\<close>)
  have auto_mode: "ac \<longrightarrow> lss \<noteq> [] \<longrightarrow>
            (\<exists>cyc. setup_cycle (StyleObject sc) ''line'' new_axes =
                      Inr (set_prop_cycle cyc new_axes) \<and>
                    cyc = (if ms = [] then map (\<lambda>l. (None, l)) lss
                           else map (\<lambda>(m, l). (Some m, l)) (combined_styles ms lss)) \<and>
                    cyc \<noteq> [] \<and>
                    (\<forall>c\<in>set cyc. snd c \<in> set valid_line_styles) \<and>
                    (prop_cycle ax = Some cyc \<longrightarrow> cycle_pos ax < length cyc \<longrightarrow>
                       (\<exists>a. plot_line (StyleObject sc) i x y lbl ax =
                               Inr (ax\<lparr>cycle_pos := (cycle_pos ax + 1) mod length cyc,
                                       artists := artists ax @ [a]\<rparr>) \<and>
                             art_marker a = fst (cyc ! cycle_pos ax) \<and>
                             art_linestyle a = Some (snd (cyc ! cycle_pos ax)) \<and>
                             snd (cyc ! cycle_pos ax) \<in> set valid_line_styles)))"
  proof (intro impI)
    assume ac: ac and lne: "lss \<noteq> []"
    let ?cyc = "if ms = [] then map (\<lambda>l. (None, l)) lss
                else map (\<lambda>(m, l). (Some m, l)) (combined_styles ms lss)"
    have a: "auto_cycle (line_style sc)" using ac f by simp
    have cc: "custom_cycler ms lss = Inr ?cyc"
      using custom_cycler_markers[OF _ lne, of ms] custom_cycler_no_markers[of lss]
      by (simp add: combined_styles_product)
    have s0: "setup_cycle (StyleObject sc) ''line'' new_axes = Inr (set_prop_cycle ?cyc new_axes)"
      unfolding setup_cycle_auto[OF a] f cc by simp
    have ne: "?cyc \<noteq> []"
      using lne product_nonempty[OF _ lne, of ms] by (simp add: combined_styles_product)
    have val: "\<forall>c\<in>set ?cyc. snd c \<in> set valid_line_styles"
      using v(2) by (auto simp: combined_styles_product)
    have step: "prop_cycle ax = Some ?cyc \<longrightarrow> cycle_pos ax < length ?cyc \<longrightarrow>
                       (\<exists>a. plot_line (StyleObject sc) i x y lbl ax =
                               Inr (ax\<lparr>cycle_pos := (cycle_pos ax + 1) mod length ?cyc,
                                       artists := artists ax @ [a]\<rparr>) \<and>
                             art_marker a = fst (?cyc ! cycle_pos ax) \<and>
                             art_linestyle a = Some (snd (?cyc ! cycle_pos ax)) \<and>
                             snd (?cyc ! cycle_pos ax) \<in> set valid_line_styles)"
    proof (intro impI)
      assume pc: "prop_cycle ax = Some ?cyc" and pos: "cycle_pos ax < length ?cyc"
      from plot_line_auto[OF a pc ne, of i x y lbl]
      obtain a' where
        1: "plot_line (StyleObject sc) i x y lbl ax =
              Inr (ax\<lparr>cycle_pos := (cycle_pos ax + 1) mod length ?cyc,
                      artists := artists ax @ [a']\<rparr>)"
        and 2: "art_marker a' = fst (?cyc ! cycle_pos ax)"
        and 3: "art_linestyle a' = Some (snd (?cyc ! cycle_pos ax))"
        by blast
      have 4: "snd (?cyc ! cycle_pos ax) \<in> set valid_line_styles"
        using val pos nth_mem by blast
      from 1 2 3 4
      show "\<exists>a. plot_line (StyleObject sc) i x y lbl ax =
                               Inr (ax\<lparr>cycle_pos := (cycle_pos ax + 1) mod length ?cyc,
                                       artists := artists ax @ [a]\<rparr>) \<and>
                             art_marker a = fst (?cyc ! cycle_pos ax) \<and>
                             art_linestyle a = Some (snd (?cyc ! cycle_pos ax)) \<and>
                             snd (?cyc ! cycle_pos ax) \<in> set valid_line_styles"
        by blast
    qed
    show "\<exists>cyc. setup_cycle (StyleObject sc) ''line'' new_axes =
                      Inr (set_prop_cycle cyc new_axes) \<and>
                    cyc = (if ms = [] then map (\<lambda>l. (None, l)) lss
                           else map (\<lambda>(m, l). (Some m, l)) (combined_styles ms lss)) \<and>
                    cyc \<noteq> [] \<and>
                    (\<forall>c\<in>set cyc. snd c \<in> set valid_line_styles) \<and>
                    (prop_cycle ax = Some cyc \<longrightarrow> cycle_pos ax < length cyc \<longrightarrow>
                       (\<exists>a. plot_line (StyleObject sc) i x y lbl ax =
                               Inr (ax\<lparr>cycle_pos := (cycle_pos ax + 1) mod length cyc,
                                       artists := artists ax @ [a]\<rparr>) \<and>
                             art_marker a = fst (cyc ! cycle_pos ax) \<and>
                             art_linestyle a = Some (snd (cyc ! cycle_pos ax)) \<and>
                             snd (cyc ! cycle_pos ax) \<in> set valid_line_styles))"
      using s0 ne val step by (intro exI[of _ ?cyc] conjI refl)
  qed
  have scatter: "\<exists>a. plot_scatter (StyleObject sc) i x y lbl ax =
                 Inr (ax\<lparr>artists := artists ax @ [a]\<rparr>) \<and>
               art_marker a = Some (if ms = [] then ''o'' else ms ! (i mod length ms))"
    using plot_scatter_object[of sc i x y lbl ax] unfolding f .
  from manual auto_mode scatter show ?thesis by (intro conjI)
qed

theorem style_resolution_defined_witness:
  "LineStyleConfig_init [''o'', ''s''] [] False 2 6 =
     Inr (line_style (style_with
       \<lparr>markers = [''o'', ''s''], line_styles = [], auto_cycle = False, line_width = 2,
        marker_size = 6\<rparr>)) \<and>
   manual_marker (StyleObject (style_with
       \<lparr>markers = [''o'', ''s''], line_styles = [], auto_cycle = False, line_width = 2,
        marker_size = 6\<rparr>)) 5 = Inr (Some ''s'') \<and>
   manual_linestyle (StyleObject (style_with
       \<lparr>markers = [''o'', ''s''], line_styles = [], auto_cycle = False, line_width = 2,
        marker_size = 6\<rparr>)) 5 = Inr ''-'' \<and>
   (\<exists>a. plot_line (StyleObject (style_with
       \<lparr>markers = [''o'', ''s''], line_styles = [], auto_cycle = False, line_width = 2,
        marker_size = 6\<rparr>)) 5 [1, 2] [3, 4] ''s5'' new_axes =
           Inr (new_axes\<lparr>artists := artists new_axes @ [a]\<rparr>) \<and>
         art_marker a = Some ''s'' \<and> art_linestyle a = Some ''-'') \<and>
   LineStyleConfig_init [] [''-''] True 2 6 =
     Inr (line_style (style_with
       \<lparr>markers = [], line_styles = [''-''], auto_cycle = True, line_width = 2,
        marker_size = 6\<rparr>)) \<and>
   setup_cycle (StyleObject (style_with
       \<lparr>markers = [], line_styles = [''-''], auto_cycle = True, line_width = 2,
        marker_size = 6\<rparr>)) ''line'' new_axes = Inr (set_prop_cycle [(None, ''-'')] new_axes) \<and>
   (\<exists>a. plot_line (StyleObject (style_with
       \<lparr>markers = [], line_styles = [''-''], auto_cycle = True, line_width = 2,
        marker_size = 6\<rparr>)) 5 [1, 2] [3, 4] ''s5'' (set_prop_cycle [(None, ''-'')] new_axes) =
           Inr ((set_prop_cycle [(None, ''-'')] new_axes)
                  \<lparr>cycle_pos := 0,
                   artists := artists (set_prop_cycle [(None, ''-'')] new_axes) @ [a]\<rparr>) \<and>
         art_marker a = None \<and> art_linestyle a = Some ''-'')"
proof -
  let ?lm = "\<lparr>markers = [''o'', ''s''], line_styles = [], auto_cycle = False, line_width = 2,
        marker_size = 6\<rparr>"
  let ?sm = "style_with ?lm"
  let ?la = "\<lparr>markers = [], line_styles = [''-''], auto_cycle = True, line_width = 2,
        marker_size = 6\<rparr>"
  let ?sa = "style_with ?la"
  let ?ax = "set_prop_cycle [(None, ''-'')] new_axes"
  have m1: "LineStyleConfig_init [''o'', ''s''] [] False 2 6 = Inr ?lm"
    by (simp add: LineStyleConfig_init_def valid_markers_def)
  have m2: "line_style ?sm = ?lm" by (simp add: style_with_def)
  have a1: "LineStyleConfig_init [] [''-''] True 2 6 = Inr ?la"
    by (simp add: LineStyleConfig_init_def valid_line_styles_def)
  have a2: "line_style ?sa = ?la" by (simp add: style_with_def)
  from style_resolution_defined[OF m1 m2, of 5 "[1, 2]" "[3, 4]" "''s5''" new_axes]
  obtain mk st where
    a: "manual_marker (StyleObject ?sm) 5 = Inr mk"
    and b: "manual_linestyle (StyleObject ?sm) 5 = Inr st"
    and c: "(case mk of None \<Rightarrow> [''o'', ''s''] = ([] :: string list)
            | Some m \<Rightarrow> [''o'', ''s''] \<noteq> ([] :: string list) \<and>
                m = [''o'', ''s''] ! (5 mod length [''o'', ''s'']) \<and> m \<in> set valid_markers)"
    and d: "st = (if ([] :: string list) = [] then ''-'' else [] ! (5 mod length ([] :: string list)))"
    and e: "\<not> False \<longrightarrow>
              (\<exists>a. plot_line (StyleObject ?sm) 5 [1, 2] [3, 4] ''s5'' new_axes =
                      Inr (new_axes\<lparr>artists := artists new_axes @ [a]\<rparr>) \<and>
                    art_marker a = mk \<and> art_linestyle a = Some st)"
    by blast
  from c have mk: "mk = Some ''s''" by (cases mk) (simp_all add: eval_nat_numeral mod_Suc)
  from d have st: "st = ''-''" by simp
  from e have e': "\<exists>a. plot_line (StyleObject ?sm) 5 [1, 2] [3, 4] ''s5'' new_axes =
                      Inr (new_axes\<lparr>artists := artists new_axes @ [a]\<rparr>) \<and>
                    art_marker a = Some ''s'' \<and> art_linestyle a = Some ''-''"
    unfolding mk st by simp
  from style_resolution_defined[OF a1 a2, of 5 "[1, 2]" "[3, 4]" "''s5''" ?ax]
  obtain cyc where
    s: "setup_cycle (StyleObject ?sa) ''line'' new_axes = Inr (set_prop_cycle cyc new_axes)"
    and cy: "cyc = (if ([] :: string list) = [] then map (\<lambda>l. (None, l)) [''-'']
                    else map (\<lambda>(m, l). (Some m, l)) (combined_styles [] [''-'']))"
    and pl: "prop_cycle ?ax = Some cyc \<longrightarrow> cycle_pos ?ax < length cyc \<longrightarrow>
               (\<exists>a. plot_line (StyleObject ?sa) 5 [1, 2] [3, 4] ''s5'' ?ax =
                       Inr (?ax\<lparr>cycle_pos := (cycle_pos ?ax + 1) mod length cyc,
                               artists := artists ?ax @ [a]\<rparr>) \<and>
                     art_marker a = fst (cyc ! cycle_pos ?ax) \<and>
                     art_linestyle a = Some (snd (cyc ! cycle_pos ?ax)) \<and>
                     snd (cyc ! cycle_pos ?ax) \<in> set valid_line_styles)"
    by blast
  from cy have cyc: "cyc = [(None, ''-'')]" by simp
  from pl have pl': "\<exists>a. plot_line (StyleObject ?sa) 5 [1, 2] [3, 4] ''s5'' ?ax =
                       Inr (?ax\<lparr>cycle_pos := 0, artists := artists ?ax @ [a]\<rparr>) \<and>
                     art_marker a = None \<and> art_linestyle a = Some ''-''"
    unfolding cyc by (fastforce simp: set_prop_cycle_def)
  from s have s': "setup_cycle (StyleObject ?sa) ''line'' new_axes = Inr ?ax"
    unfolding cyc .
  from m1 m2 a b mk st e' a1 a2 s' pl' show ?thesis by simp
qed

section \<open>The round trip through \<open>from_dict\<close> and \<open>to_dict\<close>\<close>

lemma add_source_Inr:
  "add_source stem dc f l = Inr dc' \<longleftrightarrow>
     f \<noteq> [] \<and>
     dc' = dc\<lparr>sources := sources dc @
             [\<lparr>source_file = f,
               label = (case l of None \<Rightarrow> stem f | Some s \<Rightarrow> if s = [] then stem f else s)\<rparr>]\<rparr>"
  by (cases l) (auto simp: add_source_def DataSource_init_def Let_def)

lemma add_sources_Inr:
  "add_sources stem dc srcs = Inr dc' \<Longrightarrow>
     (\<forall>sd\<in>set srcs. get (k_file sd) [] \<noteq> []) \<and>
     dc' = dc\<lparr>sources := sources dc @
             map (\<lambda>sd. \<lparr>source_file = get (k_file sd) [], label = resolved_label stem sd\<rparr>) srcs\<rparr>"
proof (induction srcs arbitrary: dc)
  case Nil
  then show ?case by simp
next
  case (Cons sd rest)
  from Cons.prems obtain dc1 where
    1: "add_source stem dc (get (k_file sd) []) (k_source_label sd) = Inr dc1"
    and 2: "add_sources stem dc1 rest = Inr dc'"
    by (auto split: sum.splits)
  from 1 have f: "get (k_file sd) [] \<noteq> []"
    and d1: "dc1 = dc\<lparr>sources := sources dc @
             [\<lparr>source_file = get (k_file sd) [], label = resolved_label stem sd\<rparr>]\<rparr>"
    by (simp_all add: add_source_Inr resolved_label_def)
  from Cons.IH[OF 2] f d1 show ?case by simp
qed

lemma add_sources_again:
  assumes "\<forall>s\<in>set ss. source_file s \<noteq> [] \<and> (label s = [] \<longrightarrow> stem (source_file s) = [])"
  shows "add_sources stem dc
           (map (\<lambda>s. \<lparr>k_file = Some (source_file s), k_source_label = Some (label s)\<rparr>) ss) =
         Inr (dc\<lparr>sources := sources dc @ map (\<lambda>s. \<lparr>source_file = source_file s, label = label s\<rparr>) ss\<rparr>)"
  using assms
proof (induction ss arbitrary: dc)
  case Nil
  then show ?case by simp
next
  case (Cons s rest)
  have 1: "add_source stem dc (get (k_file \<lparr>k_file = Some (source_file s), k_source_label = Some (label s)\<rparr>) [])
             (k_source_label \<lparr>k_file = Some (source_file s), k_source_label = Some (label s)\<rparr>) =
           Inr (dc\<lparr>sources := sources dc @ [\<lparr>source_file = source_file s, label = label s\<rparr>]\<rparr>)"
    using Cons.prems by (auto simp: add_source_Inr get_def)
  from Cons.IH[of "dc\<lparr>sources := sources dc @ [\<lparr>source_file = source_file s, label = label s\<rparr>]\<rparr>"]
    Cons.prems 1
  show ?case by simp
qed

lemma OutputConfig_init_Inr:
  "OutputConfig_init fmt d p = Inr oc \<longleftrightarrow>
     lower fmt \<in> set valid_formats \<and> oc = \<lparr>format = fmt, dpi = d, save_path = p\<rparr>"
  by (auto simp: OutputConfig_init_def)

lemma from_dict_Inr:
  assumes "from_dict stem m = Inr c"
  shows "\<exists>ls dc oc.
     LineStyleConfig_init
             (get (k_markers (line_style_of m)) from_dict_markers)
             (get (k_line_styles (line_style_of m)) from_dict_line_styles)
             (get (k_auto_cycle (line_style_of m)) True)
             (get (k_line_width (line_style_of m)) 2)
             (get (k_marker_size (line_style_of m)) 6) = Inr ls \<and>
     add_sources stem \<lparr>sources = []\<rparr> (get (k_sources (data_of m)) []) = Inr dc \<and>
     OutputConfig_init
                       (get (k_format (output_of m)) ''png'')
                       (get (k_dpi (output_of m)) 300)
                       (get (k_save_path (output_of m)) ''./output/graph.png'') = Inr oc \<and>
     c = \<lparr>graph = \<lparr>title = get (k_title (graph_of m)) [],
                 x_axis = \<lparr>axis_label = get (k_label (x_axis_of m)) [],
                           axis_min = get_nullable (k_min (x_axis_of m)),
                           axis_max = get_nullable (k_max (x_axis_of m))\<rparr>,
                 y_axis = \<lparr>axis_label = get (k_label (y_axis_of m)) [],
                           axis_min = get_nullable (k_min (y_axis_of m)),
                           axis_max = get_nullable (k_max (y_axis_of m))\<rparr>,
                 style = \<lparr>width = get (k_width (style_of m)) 10,
                          height = get (k_height (style_of m)) 10,
                          fonts = \<lparr>title_size = get (k_title_size (fonts_of m)) 16,
                                   label_size = get (k_label_size (fonts_of m)) 12,
                                   legend_size = get (k_legend_size (fonts_of m)) 10\<rparr>,
                          grid = \<lparr>grid_show = get (k_show (grid_of m)) True\<rparr>,
                          line_style = ls\<rparr>\<rparr>,
          data = dc, output_config = oc\<rparr>"
  using assms unfolding from_dict_def Let_def
  by (auto split: sum.splits)

lemma get_nonempty: "get v [] \<noteq> [] \<Longrightarrow> Some (get v []) = v"
  by (cases v) (simp_all add: get_def)

lemma to_dict_subdicts:
  "x_axis_of (to_dict c) =
     \<lparr>k_label = Some (axis_label (x_axis (graph c))),
      k_min = Some (axis_min (x_axis (graph c))),
      k_max = Some (axis_max (x_axis (graph c)))\<rparr>"
  "y_axis_of (to_dict c) =
     \<lparr>k_label = Some (axis_label (y_axis (graph c))),
      k_min = Some (axis_min (y_axis (graph c))),
      k_max = Some (axis_max (y_axis (graph c)))\<rparr>"
  "fonts_of (to_dict c) =
     \<lparr>k_title_size = Some (title_size (fonts (style (graph c)))),
      k_label_size = Some (label_size (fonts (style (graph c)))),
      k_legend_size = Some (legend_size (fonts (style (graph c))))\<rparr>"
  "grid_of (to_dict c) = \<lparr>k_show = Some (grid_show (grid (style (graph c))))\<rparr>"
  "line_style_of (to_dict c) =
     \<lparr>k_markers = Some (markers (line_style (style (graph c)))),
      k_line_styles = Some (line_styles (line_style (style (graph c)))),
      k_auto_cycle = Some (auto_cycle (line_style (style (graph c)))),
      k_line_width = Some (line_width (line_style (style (graph c)))),
      k_marker_size = Some (marker_size (line_style (style (graph c))))\<rparr>"
  "data_of (to_dict c) =
     \<lparr>k_sources = Some
           (map (\<lambda>source. \<lparr>k_file = Some (source_file source),
                           k_source_label = Some (label source)\<rparr>)
                (sources (data c)))\<rparr>"
  "output_of (to_dict c) =
     \<lparr>k_format = Some (format (output_config c)),
      k_dpi = Some (dpi (output_config c)),
      k_save_path = Some (save_path (output_config c))\<rparr>"
  "k_title (graph_of (to_dict c)) = Some (title (graph c))"
  "k_width (style_of (to_dict c)) = Some (width (style (graph c)))"
  "k_height (style_of (to_dict c)) = Some (height (style (graph c)))"
  by (simp_all add: to_dict_def graph_of_def x_axis_of_def y_axis_of_def style_of_def
        fonts_of_def grid_of_def line_style_of_def data_of_def output_of_def get_def)

lemma resolved_label_invariant:
  "resolved_label stem sd = [] \<Longrightarrow> stem (get (k_file sd) []) = []"
  by (auto simp: resolved_label_def split: option.splits if_splits)

lemma round_trip_again:
  assumes "from_dict stem m = Inr c"
  shows "from_dict stem (to_dict c) = Inr c"
proof -
  from from_dict_Inr[OF assms] obtain ls dc oc where
    ls: "LineStyleConfig_init
             (get (k_markers (line_style_of m)) from_dict_markers)
             (get (k_line_styles (line_style_of m)) from_dict_line_styles)
             (get (k_auto_cycle (line_style_of m)) True)
             (get (k_line_width (line_style_of m)) 2)
             (get (k_marker_size (line_style_of m)) 6) = Inr ls"
    and dc: "add_sources stem \<lparr>sources = []\<rparr> (get (k_sources (data_of m)) []) = Inr dc"
    and oc: "OutputConfig_init
                       (get (k_format (output_of m)) ''png'')
                       (get (k_dpi (output_of m)) 300)
                       (get (k_save_path (output_of m)) ''./output/graph.png'') = Inr oc"
    and g: "line_style (style (graph c)) = ls" "data c = dc" "output_config c = oc"
    by auto
  have ls2: "LineStyleConfig_init (markers ls) (line_styles ls) (auto_cycle ls) (line_width ls)
               (marker_size ls) = Inr ls"
    using ls by (auto simp: LineStyleConfig_init_Inr)
  have oc2: "OutputConfig_init (format oc) (dpi oc) (save_path oc) = Inr oc"
    using oc by (auto simp: OutputConfig_init_Inr)
  from add_sources_Inr[OF dc] have
    srcs: "sources dc = map (\<lambda>sd. \<lparr>source_file = get (k_file sd) [], label = resolved_label stem sd\<rparr>)
                          (get (k_sources (data_of m)) [])"
    and nonempty: "\<forall>sd\<in>set (get (k_sources (data_of m)) []). get (k_file sd) [] \<noteq> []"
    and dcrec: "dc = \<lparr>sources = sources dc\<rparr>"
    by simp_all
  have inv: "\<forall>s\<in>set (sources dc). source_file s \<noteq> [] \<and> (label s = [] \<longrightarrow> stem (source_file s) = [])"
    unfolding srcs using nonempty by (auto dest: resolved_label_invariant)
  have "map (\<lambda>s. \<lparr>source_file = source_file s, label = label s\<rparr>) (sources dc) = sources dc"
    by (rule map_idI) simp
  with add_sources_again[OF inv, of "\<lparr>sources = []\<rparr>"] dcrec
  have dc2: "add_sources stem \<lparr>sources = []\<rparr>
           (map (\<lambda>s. \<lparr>k_file = Some (source_file s), k_source_label = Some (label s)\<rparr>) (sources dc)) =
         Inr dc" by simp
  show ?thesis
    unfolding from_dict_def to_dict_subdicts Let_def
    using ls2 oc2 dc2 g
    by (simp add: get_def get_nullable_def)
qed

text \<open>
  Claim C4, as stated, fails. In \<open>empty_label_mapping\<close> the label of the source is
  explicitly present, as the empty string, and the round trip does not reproduce it:
  it returns the stem \<open>"a"\<close> of the file. (In the same result the absent key
  \<open>markers\<close> is filled with the twelve markers of \<open>from_dict\<close>, not with the
  documented default, the empty sequence; this is the defect of claim C3.)
\<close>

theorem round_trip_drops_empty_label:
  "k_sources (data_of empty_label_mapping) =
     Some [\<lparr>k_file = Some ''a.csv'', k_source_label = Some []\<rparr>] \<and>
   k_markers (line_style_of empty_label_mapping) = None \<and>
   round_trip posix_stem empty_label_mapping =
     Inr \<lparr>k_graph = Some
            \<lparr>k_type = None, k_title = Some [],
             k_x_axis = Some \<lparr>k_label = Some [], k_min = Some None, k_max = Some None\<rparr>,
             k_y_axis = Some \<lparr>k_label = Some [], k_min = Some None, k_max = Some None\<rparr>,
             k_style = Some
               \<lparr>k_width = Some 10, k_height = Some 10,
                k_fonts = Some
                  \<lparr>k_title_size = Some 16, k_label_size = Some 12, k_legend_size = Some 10\<rparr>,
                k_grid = Some \<lparr>k_show = Some True\<rparr>,
                k_line_style = Some
                  \<lparr>k_markers = Some [''o'', ''s'', ''^'', ''v'', ''<'', ''>'', ''p'', ''*'',
                                     ''+'', ''x'', ''D'', ''h''],
                   k_line_styles = Some [''-'', ''--'', ''-.'', '':''],
                   k_auto_cycle = Some True, k_line_width = Some 2,
                   k_marker_size = Some 6\<rparr>\<rparr>\<rparr>,
          k_data = Some
            \<lparr>k_sources = Some [\<lparr>k_file = Some ''a.csv'', k_source_label = Some ''a''\<rparr>]\<rparr>,
          k_output = Some
            \<lparr>k_format = Some ''png'', k_dpi = Some 300,
             k_save_path = Some ''./output/graph.png''\<rparr>\<rparr> \<and>
   default_markers = []"
proof -
  have a: "add_source posix_stem \<lparr>sources = []\<rparr> ''a.csv'' (Some []) =
           Inr \<lparr>sources = [\<lparr>source_file = ''a.csv'', label = ''a''\<rparr>]\<rparr>"
    by (simp add: add_source_def DataSource_init_def posix_stem_def path_name_def
          rfind_dot_def)
  have s: "line_style_of empty_label_mapping = empty_line_style"
    "graph_of empty_label_mapping = empty_graph"
    "x_axis_of empty_label_mapping = empty_axis"
    "y_axis_of empty_label_mapping = empty_axis"
    "style_of empty_label_mapping = empty_style"
    "fonts_of empty_label_mapping = empty_fonts"
    "grid_of empty_label_mapping = empty_grid"
    "output_of empty_label_mapping = empty_output"
    "data_of empty_label_mapping =
       \<lparr>k_sources = Some [\<lparr>k_file = Some ''a.csv'', k_source_label = Some []\<rparr>]\<rparr>"
    by (simp_all add: line_style_of_def style_of_def graph_of_def get_def empty_label_mapping_def
        empty_graph_def empty_style_def x_axis_of_def y_axis_of_def fonts_of_def grid_of_def
        data_of_def output_of_def)
  have f: "from_dict posix_stem empty_label_mapping =
     Inr \<lparr>graph =
            \<lparr>title = [],
             x_axis = \<lparr>axis_label = [], axis_min = None, axis_max = None\<rparr>,
             y_axis = \<lparr>axis_label = [], axis_min = None, axis_max = None\<rparr>,
             style = \<lparr>width = 10, height = 10,
                      fonts = \<lparr>title_size = 16, label_size = 12, legend_size = 10\<rparr>,
                      grid = \<lparr>grid_show = True\<rparr>,
                      line_style =
                        \<lparr>markers = from_dict_markers, line_styles = from_dict_line_styles,
                         auto_cycle = True, line_width = 2, marker_size = 6\<rparr>\<rparr>\<rparr>,
          data = \<lparr>sources = [\<lparr>source_file = ''a.csv'', label = ''a''\<rparr>]\<rparr>,
          output_config =
            \<lparr>format = ''png'', dpi = 300, save_path = ''./output/graph.png''\<rparr>\<rparr>"
    unfolding from_dict_def s
    by (simp add: get_def get_nullable_def empty_line_style_def empty_graph_def empty_axis_def
        empty_style_def empty_fonts_def empty_grid_def empty_output_def a
        from_dict_defaults_valid OutputConfig_defaults_valid)
  show ?thesis
    by (simp add: round_trip_def f to_dict_def s empty_line_style_def from_dict_markers_def
          from_dict_line_styles_def default_markers_def get_def)
qed

text \<open>
  Claim C4, amended. For every mapping \<open>m\<close> that \<open>from_dict\<close> accepts, the result
  \<open>d\<close> of \<open>to_dict(from_dict(m))\<close> reproduces every field explicitly present in \<open>m\<close>,
  except that a data-source label that is present but empty is replaced by the stem
  of the source's file, as an absent label is; every absent field other than
  \<open>markers\<close> and \<open>line_styles\<close> is filled with its documented default; and the round
  trip is idempotent: applied to \<open>d\<close> it yields \<open>d\<close> again. Each field is one
  equation: the value in \<open>d\<close> is the value in \<open>m\<close> when the key is present there,
  and the default otherwise.
\<close>

theorem round_trip_layered_defaults:
  assumes "round_trip stem m = Inr d"
  shows "k_title (graph_of d) = Some (get (k_title (graph_of m)) []) \<and>
         k_label (x_axis_of d) = Some (get (k_label (x_axis_of m)) []) \<and>
         k_min (x_axis_of d) = Some (get_nullable (k_min (x_axis_of m))) \<and>
         k_max (x_axis_of d) = Some (get_nullable (k_max (x_axis_of m))) \<and>
         k_label (y_axis_of d) = Some (get (k_label (y_axis_of m)) []) \<and>
         k_min (y_axis_of d) = Some (get_nullable (k_min (y_axis_of m))) \<and>
         k_max (y_axis_of d) = Some (get_nullable (k_max (y_axis_of m))) \<and>
         k_width (style_of d) = Some (get (k_width (style_of m)) 10) \<and>
         k_height (style_of d) = Some (get (k_height (style_of m)) 10) \<and>
         k_title_size (fonts_of d) = Some (get (k_title_size (fonts_of m)) 16) \<and>
         k_label_size (fonts_of d) = Some (get (k_label_size (fonts_of m)) 12) \<and>
         k_legend_size (fonts_of d) = Some (get (k_legend_size (fonts_of m)) 10) \<and>
         k_show (grid_of d) = Some (get (k_show (grid_of m)) True) \<and>
         (\<forall>v. k_markers (line_style_of m) = Some v \<longrightarrow> k_markers (line_style_of d) = Some v) \<and>
         (\<forall>v. k_line_styles (line_style_of m) = Some v \<longrightarrow>
              k_line_styles (line_style_of d) = Some v) \<and>
         k_auto_cycle (line_style_of d) = Some (get (k_auto_cycle (line_style_of m)) True) \<and>
         k_line_width (line_style_of d) = Some (get (k_line_width (line_style_of m)) 2) \<and>
         k_marker_size (line_style_of d) = Some (get (k_marker_size (line_style_of m)) 6) \<and>
         k_sources (data_of d) =
           Some (map (\<lambda>sd. \<lparr>k_file = k_file sd, k_source_label = Some (resolved_label stem sd)\<rparr>)
                   (get (k_sources (data_of m)) [])) \<and>
         k_format (output_of d) = Some (get (k_format (output_of m)) ''png'') \<and>
         k_dpi (output_of d) = Some (get (k_dpi (output_of m)) 300) \<and>
         k_save_path (output_of d) = Some (get (k_save_path (output_of m)) ''./output/graph.png'') \<and>
         round_trip stem d = Inr d"
proof -
  from assms obtain c where c: "from_dict stem m = Inr c" and d: "d = to_dict c"
    by (auto simp: round_trip_def split: sum.splits)
  from from_dict_Inr[OF c] obtain ls dc oc where
    ls: "LineStyleConfig_init
             (get (k_markers (line_style_of m)) from_dict_markers)
             (get (k_line_styles (line_style_of m)) from_dict_line_styles)
             (get (k_auto_cycle (line_style_of m)) True)
             (get (k_line_width (line_style_of m)) 2)
             (get (k_marker_size (line_style_of m)) 6) = Inr ls"
    and dc: "add_sources stem \<lparr>sources = []\<rparr> (get (k_sources (data_of m)) []) = Inr dc"
    and oc: "OutputConfig_init
                       (get (k_format (output_of m)) ''png'')
                       (get (k_dpi (output_of m)) 300)
                       (get (k_save_path (output_of m)) ''./output/graph.png'') = Inr oc"
    and g: "title (graph c) = get (k_title (graph_of m)) []"
      "x_axis (graph c) = \<lparr>axis_label = get (k_label (x_axis_of m)) [],
                           axis_min = get_nullable (k_min (x_axis_of m)),
                           axis_max = get_nullable (k_max (x_axis_of m))\<rparr>"
      "y_axis (graph c) = \<lparr>axis_label = get (k_label (y_axis_of m)) [],
                           axis_min = get_nullable (k_min (y_axis_of m)),
                           axis_max = get_nullable (k_max (y_axis_of m))\<rparr>"
      "width (style (graph c)) = get (k_width (style_of m)) 10"
      "height (style (graph c)) = get (k_height (style_of m)) 10"
      "fonts (style (graph c)) = \<lparr>title_size = get (k_title_size (fonts_of m)) 16,
                                   label_size = get (k_label_size (fonts_of m)) 12,
                                   legend_size = get (k_legend_size (fonts_of m)) 10\<rparr>"
      "grid (style (graph c)) = \<lparr>grid_show = get (k_show (grid_of m)) True\<rparr>"
      "line_style (style (graph c)) = ls" "data c = dc" "output_config c = oc"
    by auto
  have lsf: "markers ls = get (k_markers (line_style_of m)) from_dict_markers"
    "line_styles ls = get (k_line_styles (line_style_of m)) from_dict_line_styles"
    "auto_cycle ls = get (k_auto_cycle (line_style_of m)) True"
    "line_width ls = get (k_line_width (line_style_of m)) 2"
    "marker_size ls = get (k_marker_size (line_style_of m)) 6"
    using ls by (auto simp: LineStyleConfig_init_Inr)
  have ocf: "format oc = get (k_format (output_of m)) ''png''"
    "dpi oc = get (k_dpi (output_of m)) 300"
    "save_path oc = get (k_save_path (output_of m)) ''./output/graph.png''"
    using oc by (auto simp: OutputConfig_init_Inr)
  from add_sources_Inr[OF dc] have
    srcs: "sources dc = map (\<lambda>sd. \<lparr>source_file = get (k_file sd) [], label = resolved_label stem sd\<rparr>)
                          (get (k_sources (data_of m)) [])"
    and nonempty: "\<forall>sd\<in>set (get (k_sources (data_of m)) []). get (k_file sd) [] \<noteq> []"
    by simp_all
  have files: "\<forall>sd\<in>set (get (k_sources (data_of m)) []). Some (get (k_file sd) []) = k_file sd"
    using nonempty get_nonempty by blast
  have src_eq: "k_sources (data_of d) =
           Some (map (\<lambda>sd. \<lparr>k_file = k_file sd, k_source_label = Some (resolved_label stem sd)\<rparr>)
                   (get (k_sources (data_of m)) []))"
    unfolding d to_dict_subdicts using files by (simp add: g(9) srcs comp_def)
  have again: "round_trip stem d = Inr d"
    unfolding d using round_trip_again[OF c] by (simp add: round_trip_def)
  have mk: "\<forall>v. k_markers (line_style_of m) = Some v \<longrightarrow> k_markers (line_style_of d) = Some v"
    unfolding d to_dict_subdicts by (simp add: g(8) lsf get_def)
  have lk: "\<forall>v. k_line_styles (line_style_of m) = Some v \<longrightarrow>
              k_line_styles (line_style_of d) = Some v"
    unfolding d to_dict_subdicts by (simp add: g(8) lsf get_def)
  have leaves:
    "k_title (graph_of d) = Some (get (k_title (graph_of m)) [])"
    "k_label (x_axis_of d) = Some (get (k_label (x_axis_of m)) [])"
    "k_min (x_axis_of d) = Some (get_nullable (k_min (x_axis_of m)))"
    "k_max (x_axis_of d) = Some (get_nullable (k_max (x_axis_of m)))"
    "k_label (y_axis_of d) = Some (get (k_label (y_axis_of m)) [])"
    "k_min (y_axis_of d) = Some (get_nullable (k_min (y_axis_of m)))"
    "k_max (y_axis_of d) = Some (get_nullable (k_max (y_axis_of m)))"
    "k_width (style_of d) = Some (get (k_width (style_of m)) 10)"
    "k_height (style_of d) = Some (get (k_height (style_of m)) 10)"
    "k_title_size (fonts_of d) = Some (get (k_title_size (fonts_of m)) 16)"
    "k_label_size (fonts_of d) = Some (get (k_label_size (fonts_of m)) 12)"
    "k_legend_size (fonts_of d) = Some (get (k_legend_size (fonts_of m)) 10)"
    "k_show (grid_of d) = Some (get (k_show (grid_of m)) True)"
    "k_auto_cycle (line_style_of d) = Some (get (k_auto_cycle (line_style_of m)) True)"
    "k_line_width (line_style_of d) = Some (get (k_line_width (line_style_of m)) 2)"
    "k_marker_size (line_style_of d) = Some (get (k_marker_size (line_style_of m)) 6)"
    "k_format (output_of d) = Some (get (k_format (output_of m)) ''png'')"
    "k_dpi (output_of d) = Some (get (k_dpi (output_of m)) 300)"
    "k_save_path (output_of d) = Some (get (k_save_path (output_of m)) ''./output/graph.png'')"
    unfolding d to_dict_subdicts by (simp_all add: g lsf ocf)
  show ?thesis
    by (intro conjI) (rule leaves mk lk src_eq again)+
qed

theorem round_trip_layered_defaults_witness:
  "round_trip posix_stem example_mapping =
     Inr \<lparr>k_graph = Some
            \<lparr>k_type = None, k_title = Some ''Test'',
             k_x_axis = Some \<lparr>k_label = Some [], k_min = Some None, k_max = Some None\<rparr>,
             k_y_axis = Some \<lparr>k_label = Some [], k_min = Some None, k_max = Some None\<rparr>,
             k_style = Some
               \<lparr>k_width = Some 10, k_height = Some 10,
                k_fonts = Some
                  \<lparr>k_title_size = Some 16, k_label_size = Some 12, k_legend_size = Some 10\<rparr>,
                k_grid = Some \<lparr>k_show = Some True\<rparr>,
                k_line_style = Some
                  \<lparr>k_markers = Some [''o'', ''s'', ''^'', ''v'', ''<'', ''>'', ''p'', ''*'',
                                     ''+'', ''x'', ''D'', ''h''],
                   k_line_styles = Some [''-'', ''--'', ''-.'', '':''],
                   k_auto_cycle = Some True, k_line_width = Some 3,
                   k_marker_size = Some 6\<rparr>\<rparr>\<rparr>,
          k_data = Some
            \<lparr>k_sources = Some [\<lparr>k_file = Some ''data/run1.csv'', k_source_label = Some ''run1''\<rparr>,
                               \<lparr>k_file = Some ''b.csv'', k_source_label = Some ''B''\<rparr>]\<rparr>,
          k_output = Some
            \<lparr>k_format = Some ''SVG'', k_dpi = Some 300,
             k_save_path = Some ''./output/graph.png''\<rparr>\<rparr> \<and>
   round_trip posix_stem
     \<lparr>k_graph = Some
            \<lparr>k_type = None, k_title = Some ''Test'',
             k_x_axis = Some \<lparr>k_label = Some [], k_min = Some None, k_max = Some None\<rparr>,
             k_y_axis = Some \<lparr>k_label = Some [], k_min = Some None, k_max = Some None\<rparr>,
             k_style = Some
               \<lparr>k_width = Some 10, k_height = Some 10,
                k_fonts = Some
                  \<lparr>k_title_size = Some 16, k_label_size = Some 12, k_legend_size = Some 10\<rparr>,
                k_grid = Some \<lparr>k_show = Some True\<rparr>,
                k_line_style = Some
                  \<lparr>k_markers = Some [''o'', ''s'', ''^'', ''v'', ''<'', ''>'', ''p'', ''*'',
                                     ''+'', ''x'', ''D'', ''h''],
                   k_line_styles = Some [''-'', ''--'', ''-.'', '':''],
                   k_auto_cycle = Some True, k_line_width = Some 3,
                   k_marker_size = Some 6\<rparr>\<rparr>\<rparr>,
          k_data = Some
            \<lparr>k_sources = Some [\<lparr>k_file = Some ''data/run1.csv'', k_source_label = Some ''run1''\<rparr>,
                               \<lparr>k_file = Some ''b.csv'', k_source_label = Some ''B''\<rparr>]\<rparr>,
          k_output = Some
            \<lparr>k_format = Some ''SVG'', k_dpi = Some 300,
             k_save_path = Some ''./output/graph.png''\<rparr>\<rparr> =
   round_trip posix_stem example_mapping"
proof -
  let ?d = "\<lparr>k_graph = Some
            \<lparr>k_type = None, k_title = Some ''Test'',
             k_x_axis = Some \<lparr>k_label = Some [], k_min = Some None, k_max = Some None\<rparr>,
             k_y_axis = Some \<lparr>k_label = Some [], k_min = Some None, k_max = Some None\<rparr>,
             k_style = Some
               \<lparr>k_width = Some 10, k_height = Some 10,
                k_fonts = Some
                  \<lparr>k_title_size = Some 16, k_label_size = Some 12, k_legend_size = Some 10\<rparr>,
                k_grid = Some \<lparr>k_show = Some True\<rparr>,
                k_line_style = Some
                  \<lparr>k_markers = Some [''o'', ''s'', ''^'', ''v'', ''<'', ''>'', ''p'', ''*'',
                                     ''+'', ''x'', ''D'', ''h''],
                   k_line_styles = Some [''-'', ''--'', ''-.'', '':''],
                   k_auto_cycle = Some True, k_line_width = Some 3,
                   k_marker_size = Some 6\<rparr>\<rparr>\<rparr>,
          k_data = Some
            \<lparr>k_sources = Some [\<lparr>k_file = Some ''data/run1.csv'', k_source_label = Some ''run1''\<rparr>,
                               \<lparr>k_file = Some ''b.csv'', k_source_label = Some ''B''\<rparr>]\<rparr>,
          k_output = Some
            \<lparr>k_format = Some ''SVG'', k_dpi = Some 300,
             k_save_path = Some ''./output/graph.png''\<rparr>\<rparr>"
  have st: "posix_stem ''data/run1.csv'' = ''run1''"
    by (simp add: posix_stem_def path_name_def rfind_dot_def)
  have l: "LineStyleConfig_init from_dict_markers from_dict_line_styles True 3 6 =
     Inr \<lparr>markers = from_dict_markers, line_styles = from_dict_line_styles, auto_cycle = True,
          line_width = 3, marker_size = 6\<rparr>"
    by (simp add: LineStyleConfig_init_def from_dict_markers_def from_dict_line_styles_def
        valid_markers_def valid_line_styles_def)
  have o: "OutputConfig_init ''SVG'' 300 ''./output/graph.png'' =
     Inr \<lparr>format = ''SVG'', dpi = 300, save_path = ''./output/graph.png''\<rparr>"
    by (simp add: OutputConfig_init_def lower_def lower_char_def valid_formats_def)
  have s: "line_style_of example_mapping = empty_line_style\<lparr>k_line_width := Some 3\<rparr>"
    "graph_of example_mapping = empty_graph
        \<lparr>k_title := Some ''Test'',
         k_style := Some (empty_style
           \<lparr>k_line_style := Some (empty_line_style\<lparr>k_line_width := Some 3\<rparr>)\<rparr>)\<rparr>"
    "x_axis_of example_mapping = empty_axis"
    "y_axis_of example_mapping = empty_axis"
    "style_of example_mapping =
       empty_style\<lparr>k_line_style := Some (empty_line_style\<lparr>k_line_width := Some 3\<rparr>)\<rparr>"
    "fonts_of example_mapping = empty_fonts"
    "grid_of example_mapping = empty_grid"
    "output_of example_mapping = empty_output\<lparr>k_format := Some ''SVG''\<rparr>"
    "data_of example_mapping =
       \<lparr>k_sources = Some
           [\<lparr>k_file = Some ''data/run1.csv'', k_source_label = None\<rparr>,
            \<lparr>k_file = Some ''b.csv'', k_source_label = Some ''B''\<rparr>]\<rparr>"
    by (simp_all add: line_style_of_def style_of_def graph_of_def get_def example_mapping_def
        empty_graph_def empty_style_def x_axis_of_def y_axis_of_def fonts_of_def grid_of_def
        data_of_def output_of_def)
  have f: "from_dict posix_stem example_mapping =
     Inr \<lparr>graph =
            \<lparr>title = ''Test'',
             x_axis = \<lparr>axis_label = [], axis_min = None, axis_max = None\<rparr>,
             y_axis = \<lparr>axis_label = [], axis_min = None, axis_max = None\<rparr>,
             style = \<lparr>width = 10, height = 10,
                      fonts = \<lparr>title_size = 16, label_size = 12, legend_size = 10\<rparr>,
                      grid = \<lparr>grid_show = True\<rparr>,
                      line_style =
                        \<lparr>markers = from_dict_markers, line_styles = from_dict_line_styles,
                         auto_cycle = True, line_width = 3, marker_size = 6\<rparr>\<rparr>\<rparr>,
          data = \<lparr>sources = [\<lparr>source_file = ''data/run1.csv'', label = ''run1''\<rparr>,
                           \<lparr>source_file = ''b.csv'', label = ''B''\<rparr>]\<rparr>,
          output_config =
            \<lparr>format = ''SVG'', dpi = 300, save_path = ''./output/graph.png''\<rparr>\<rparr>"
    unfolding from_dict_def s
    by (simp add: get_def get_nullable_def empty_line_style_def empty_graph_def empty_axis_def
        empty_style_def empty_fonts_def empty_grid_def empty_output_def l o
        add_source_def DataSource_init_def st)
  have h: "round_trip posix_stem example_mapping = Inr ?d"
    by (simp add: round_trip_def f to_dict_def from_dict_markers_def from_dict_line_styles_def)
  from round_trip_layered_defaults[OF h] have "round_trip posix_stem ?d = Inr ?d" by blast
  with h show ?thesis by simp
qed

section \<open>Batch data loading and rendering\<close>

lemma loaded_sources_Nil [simp]: "loaded_sources read_csv [] = []"
  by (simp add: loaded_sources_def)

lemma loaded_sources_skip:
  "loaded read_csv sd = None \<Longrightarrow> loaded_sources read_csv (sd # rest) = loaded_sources read_csv rest"
  by (simp add: loaded_sources_def)

lemma loaded_sources_store:
  "loaded read_csv sd = Some p \<Longrightarrow>
   loaded_sources read_csv (sd # rest) = p # loaded_sources read_csv rest"
  by (simp add: loaded_sources_def)

lemma load_loop_Cons_cases:
  obtains (skip) out where "loaded read_csv sd = None"
      "load_loop read_csv (sd # rest) msgs dfs = load_loop read_csv rest (msgs @ out) dfs"
      "\<And>f. fails_to_load read_csv sd f \<Longrightarrow> Warning_failed_to_load f \<in> set out"
  | (store) l df out where "loaded read_csv sd = Some (l, df)"
      "load_loop read_csv (sd # rest) msgs dfs =
         load_loop read_csv rest (msgs @ out) (AList.update l df dfs)"
      "\<And>f. \<not> fails_to_load read_csv sd f"
proof (cases "k_file sd")
  case None
  have "loaded read_csv sd = None" using None by (simp add: loaded_def)
  moreover have "load_loop read_csv (sd # rest) msgs dfs = load_loop read_csv rest (msgs @ []) dfs"
    using None by simp
  moreover have "\<And>f. fails_to_load read_csv sd f \<Longrightarrow> Warning_failed_to_load f \<in> set []"
    using None by (simp add: fails_to_load_def)
  ultimately show ?thesis by (rule skip)
next
  case (Some g)
  show ?thesis
  proof (cases "g = []")
    case True
    have "loaded read_csv sd = None" using Some True by (simp add: loaded_def)
    moreover have "load_loop read_csv (sd # rest) msgs dfs = load_loop read_csv rest (msgs @ []) dfs"
      using Some True by simp
    moreover have "\<And>f. fails_to_load read_csv sd f \<Longrightarrow> Warning_failed_to_load f \<in> set []"
      using Some True by (simp add: fails_to_load_def)
    ultimately show ?thesis by (rule skip)
  next
    case False
    obtain out r where l: "load_csv read_csv g = (out, r)" by (cases "load_csv read_csv g")
    show ?thesis
    proof (cases r)
      case None
      have "loaded read_csv sd = None" using Some False l None by (simp add: loaded_def)
      moreover have "load_loop read_csv (sd # rest) msgs dfs =
          load_loop read_csv rest (msgs @ (out @ [Warning_failed_to_load g])) dfs"
        using Some False l None by (simp add: Let_def)
      moreover have "\<And>f. fails_to_load read_csv sd f \<Longrightarrow>
          Warning_failed_to_load f \<in> set (out @ [Warning_failed_to_load g])"
        using Some by (simp add: fails_to_load_def)
      ultimately show ?thesis by (rule skip)
    next
      case (Some df)
      have "loaded read_csv sd = Some (get (k_source_label sd) g, df)"
        using \<open>k_file sd = Some g\<close> False l Some by (simp add: loaded_def)
      moreover have "load_loop read_csv (sd # rest) msgs dfs =
          load_loop read_csv rest (msgs @ out) (AList.update (get (k_source_label sd) g) df dfs)"
        using \<open>k_file sd = Some g\<close> False l Some by (simp add: Let_def)
      moreover have "\<And>f. \<not> fails_to_load read_csv sd f"
        using \<open>k_file sd = Some g\<close> l Some by (auto simp: fails_to_load_def)
      ultimately show ?thesis by (rule store)
    qed
  qed
qed

lemma load_loop_frames:
  "snd (load_loop read_csv srcs msgs dfs) =
     fold (\<lambda>(l, df). AList.update l df) (loaded_sources read_csv srcs) dfs"
proof (induction srcs arbitrary: msgs dfs)
  case Nil
  then show ?case by simp
next
  case (Cons sd rest)
  show ?case
  proof (cases rule: load_loop_Cons_cases[of read_csv sd rest msgs dfs])
    case (skip out)
    show ?thesis
      unfolding skip(2) loaded_sources_skip[OF skip(1)] by (rule Cons.IH)
  next
    case (store l df out)
    show ?thesis
      unfolding store(2) loaded_sources_store[OF store(1)] using Cons.IH by simp
  qed
qed

lemma load_loop_msgs_mono: "set msgs \<subseteq> set (fst (load_loop read_csv srcs msgs dfs))"
proof (induction srcs arbitrary: msgs dfs)
  case Nil
  then show ?case by simp
next
  case (Cons sd rest)
  show ?case
  proof (cases rule: load_loop_Cons_cases[of read_csv sd rest msgs dfs])
    case (skip out)
    have "set msgs \<subseteq> set (msgs @ out)" by simp
    also have "\<dots> \<subseteq> set (fst (load_loop read_csv rest (msgs @ out) dfs))" by (rule Cons.IH)
    finally show ?thesis unfolding skip(2) .
  next
    case (store l df out)
    have "set msgs \<subseteq> set (msgs @ out)" by simp
    also have "\<dots> \<subseteq> set (fst (load_loop read_csv rest (msgs @ out) (AList.update l df dfs)))"
      by (rule Cons.IH)
    finally show ?thesis unfolding store(2) .
  qed
qed

lemma load_loop_warns:
  assumes "sd \<in> set srcs" "fails_to_load read_csv sd f"
  shows "Warning_failed_to_load f \<in> set (fst (load_loop read_csv srcs msgs dfs))"
  using assms(1)
proof (induction srcs arbitrary: msgs dfs)
  case Nil
  then show ?case by simp
next
  case (Cons s rest)
  show ?case
  proof (cases rule: load_loop_Cons_cases[of read_csv s rest msgs dfs])
    case (skip out)
    show ?thesis
    proof (cases "sd = s")
      case True
      then have "Warning_failed_to_load f \<in> set (msgs @ out)" using skip(3) assms(2) by simp
      then show ?thesis unfolding skip(2) using load_loop_msgs_mono by blast
    next
      case False
      with Cons.prems have "sd \<in> set rest" by simp
      then show ?thesis unfolding skip(2) by (rule Cons.IH)
    qed
  next
    case (store l df out)
    then have "sd \<noteq> s" using assms(2) by blast
    with Cons.prems have "sd \<in> set rest" by simp
    then show ?thesis unfolding store(2) by (rule Cons.IH)
  qed
qed


lemma fold_update_keys:
  "fst ` set (fold (\<lambda>(l, df). AList.update l df) L dfs) = fst ` set dfs \<union> fst ` set L"
proof (induction L arbitrary: dfs)
  case Nil
  then show ?case by simp
next
  case (Cons p L)
  obtain k v where p: "p = (k, v)" by (cases p)
  have "fst ` set (AList.update k v dfs) = {k} \<union> fst ` set dfs" by (rule AList.dom_update)
  with Cons.IH[of "AList.update k v dfs"] p show ?case by auto
qed


lemma update_fresh: "k \<notin> fst ` set dfs \<Longrightarrow> AList.update k v dfs = dfs @ [(k, v)]"
  by (induction dfs) auto

lemma fold_update_fresh:
  "distinct (map fst (dfs @ L)) \<Longrightarrow> fold (\<lambda>(l, df). AList.update l df) L dfs = dfs @ L"
proof (induction L arbitrary: dfs)
  case Nil
  then show ?case by simp
next
  case (Cons p L)
  obtain k v where p: "p = (k, v)" by (cases p)
  from Cons.prems p have k: "k \<notin> fst ` set dfs" by auto
  from Cons.prems p have "distinct (map fst ((dfs @ [(k, v)]) @ L))" by auto
  from Cons.IH[OF this] show ?case using p k by (simp add: update_fresh)
qed

lemma fold_update_length:
  "length (fold (\<lambda>(l, df). AList.update l df) L dfs) \<le> length dfs + length L"
proof (induction L arbitrary: dfs)
  case Nil
  then show ?case by simp
next
  case (Cons p L)
  obtain k v where p: "p = (k, v)" by (cases p)
  have "length (AList.update k v dfs) \<le> Suc (length dfs)"
    by (induction dfs) auto
  with Cons.IH[of "AList.update k v dfs"] p show ?case by simp
qed

lemma fold_update_values:
  "snd ` set (fold (\<lambda>(l, df). AList.update l df) L dfs) \<subseteq> snd ` set dfs \<union> snd ` set L"
proof (induction L arbitrary: dfs)
  case Nil
  then show ?case by simp
next
  case (Cons p L)
  obtain k v where p: "p = (k, v)" by (cases p)
  have "snd ` set (AList.update k v dfs) \<subseteq> insert v (snd ` set dfs)"
    by (induction dfs) auto
  with Cons.IH[of "AList.update k v dfs"] p show ?case by auto
qed

lemma loaded_two_columns:
  "loaded read_csv sd = Some (l, df) \<Longrightarrow> df_columns df = [''x'', ''y'']"
  by (auto simp: loaded_def load_csv_def df_columns_def Let_def
           split: option.splits if_splits csv_result.splits)

lemma not_truthy_style [simp]:
  "\<not> truthy sc \<Longrightarrow> style_and sc p = Inr False"
  "\<not> truthy sc \<Longrightarrow> style_or sc f d = Inr d"
  by (simp_all add: style_and_def style_or_def)

lemma plot_source_empty_frame:
  "dataframe s = Some (Frame df) \<Longrightarrow> entry_label s = Some lbl \<Longrightarrow> df_empty df \<Longrightarrow>
   plot_source gt sc i s ax = ([Warning_skipping_empty_dataframe lbl], Inr ax)"
  by (simp add: plot_source_def)

lemma plot_source_falsy:
  assumes "plottable s" "two_columns s" "\<not> truthy sc" "gt \<in> set supported_types"
  shows "\<exists>a. plot_source gt sc i s ax = ([], Inr (ax\<lparr>artists := artists ax @ [a]\<rparr>)) \<and>
           art_label a = label_of s"
proof -
  from assms(1) obtain df lbl where s: "dataframe s = Some (Frame df)" "entry_label s = Some lbl"
    "\<not> df_empty df" "label_of s = lbl" by (rule plottable_cases)
  with assms(2) have c: "2 \<le> length (df_columns df)" by (simp add: two_columns_def)
  then have c0: "df_columns df \<noteq> []" by auto
  from assms(4) consider "gt = ''line''" | "gt = ''bar''" | "gt = ''scatter''"
    by (auto simp: supported_types_def)
  then show ?thesis
  proof cases
    case 1
    then show ?thesis using s c c0 assms(3)
      by (fastforce simp: plot_source_def py_index_def plot_line_def manual_marker_def
            manual_linestyle_def ax_plot_def line_artist_def)
  next
    case 2
    then show ?thesis using s c c0 assms(3)
      by (fastforce simp: plot_source_def py_index_def ax_bar_def)
  next
    case 3
    then show ?thesis using s c c0 assms(3)
      by (fastforce simp: plot_source_def py_index_def plot_scatter_def ax_scatter_def)
  qed
qed

lemma plot_loop_msgs_mono:
  "set msgs \<subseteq> set (fst (plot_loop gt sc i srcs msgs ax))"
proof (induction srcs arbitrary: i msgs ax)
  case Nil
  then show ?case by simp
next
  case (Cons s rest)
  show ?case
  proof (cases "plot_source gt sc i s ax")
    case (Pair out r)
    show ?thesis
    proof (cases r)
      case (Inl e)
      then show ?thesis using Pair by simp
    next
      case (Inr ax')
      then show ?thesis using Pair Cons.IH[of "msgs @ out" "Suc i" ax'] by auto
    qed
  qed
qed

lemma plot_loop_falsy:
  assumes "\<forall>s\<in>set srcs. two_columns s" "\<not> truthy sc" "gt \<in> set supported_types"
  shows "\<exists>msgs' new. plot_loop gt sc i srcs msgs ax =
            (msgs', Inr (ax\<lparr>artists := artists ax @ new\<rparr>)) \<and>
          map art_label new = map label_of (filter plottable srcs) \<and>
          (\<forall>s\<in>set srcs. \<forall>df lbl. dataframe s = Some (Frame df) \<and> entry_label s = Some lbl \<and>
              df_empty df \<longrightarrow> Warning_skipping_empty_dataframe lbl \<in> set msgs')"
  using assms(1)
proof (induction srcs arbitrary: i msgs ax)
  case Nil
  show ?case by (rule exI[of _ msgs], rule exI[of _ "[]"]) simp
next
  case (Cons s rest)
  show ?case
  proof (cases "plottable s")
    case False
    then obtain out where o: "plot_source gt sc i s ax = (out, Inr ax)"
      using plot_source_skip by blast
    from Cons.IH[of "Suc i" "msgs @ out" ax] Cons.prems
    obtain msgs' new where
      n: "plot_loop gt sc (Suc i) rest (msgs @ out) ax = (msgs', Inr (ax\<lparr>artists := artists ax @ new\<rparr>))"
      and ln: "map art_label new = map label_of (filter plottable rest)"
      and w: "\<forall>s\<in>set rest. \<forall>df lbl. dataframe s = Some (Frame df) \<and> entry_label s = Some lbl \<and>
              df_empty df \<longrightarrow> Warning_skipping_empty_dataframe lbl \<in> set msgs'"
      by auto
    have mono: "set (msgs @ out) \<subseteq> set msgs'"
      using plot_loop_msgs_mono[of "msgs @ out" gt sc "Suc i" rest ax] n by simp
    have hd: "\<forall>df lbl. dataframe s = Some (Frame df) \<and> entry_label s = Some lbl \<and>
              df_empty df \<longrightarrow> Warning_skipping_empty_dataframe lbl \<in> set msgs'"
    proof (intro allI impI)
      fix df lbl
      assume a: "dataframe s = Some (Frame df) \<and> entry_label s = Some lbl \<and> df_empty df"
      then have "plot_source gt sc i s ax = ([Warning_skipping_empty_dataframe lbl], Inr ax)"
        by (simp add: plot_source_empty_frame)
      with o have "out = [Warning_skipping_empty_dataframe lbl]" by simp
      with mono show "Warning_skipping_empty_dataframe lbl \<in> set msgs'" by auto
    qed
    show ?thesis
      by (rule exI[of _ msgs'], rule exI[of _ new]) (use o n ln w hd False in simp)
  next
    case True
    from plot_source_falsy[OF True _ assms(2,3), of i ax] Cons.prems
    obtain a where a: "plot_source gt sc i s ax = ([], Inr (ax\<lparr>artists := artists ax @ [a]\<rparr>))"
      and la: "art_label a = label_of s"
      by auto
    from Cons.IH[of "Suc i" "msgs" "ax\<lparr>artists := artists ax @ [a]\<rparr>"] Cons.prems
    obtain msgs' new where
      n: "plot_loop gt sc (Suc i) rest msgs (ax\<lparr>artists := artists ax @ [a]\<rparr>) =
            (msgs', Inr (ax\<lparr>artists := artists ax @ [a] @ new\<rparr>))"
      and ln: "map art_label new = map label_of (filter plottable rest)"
      and w: "\<forall>s\<in>set rest. \<forall>df lbl. dataframe s = Some (Frame df) \<and> entry_label s = Some lbl \<and>
              df_empty df \<longrightarrow> Warning_skipping_empty_dataframe lbl \<in> set msgs'"
      by auto
    have hd: "\<forall>df lbl. dataframe s = Some (Frame df) \<and> entry_label s = Some lbl \<and>
              df_empty df \<longrightarrow> Warning_skipping_empty_dataframe lbl \<in> set msgs'"
      using True by (auto simp: plottable_def)
    show ?thesis
      by (rule exI[of _ msgs'], rule exI[of _ "a # new"]) (use a n la ln w hd True in simp)
  qed
qed

lemma render_loaded:
  assumes "\<not> truthy sc" "gt \<in> set supported_types" "dfs \<noteq> []"
      and "\<forall>p\<in>set dfs. 2 \<le> length (df_columns (snd p))"
  shows "\<exists>msgs fig. create_graph_from_dataframes dfs gt ttl xl yl sc = (msgs, Some fig) \<and>
           map art_label (artists (fig_axes fig)) = map fst (filter (\<lambda>(l, df). \<not> df_empty df) dfs) \<and>
           (\<forall>p\<in>set dfs. df_empty (snd p) \<longrightarrow> Warning_skipping_empty_dataframe (fst p) \<in> set msgs)"
proof -
  let ?E = "\<lambda>(lbl, df). \<lparr>dataframe = Some (Frame df), entry_label = Some lbl\<rparr>"
  let ?srcs = "map ?E dfs"
  have tc: "\<forall>s\<in>set ?srcs. two_columns s"
    using assms(4) by (auto simp: two_columns_def)
  from plot_loop_falsy[OF tc assms(1,2), of 0 "[]" new_axes]
  obtain msgs new where
    l: "plot_loop gt sc 0 ?srcs [] new_axes = (msgs, Inr (new_axes\<lparr>artists := artists new_axes @ new\<rparr>))"
    and ln: "map art_label new = map label_of (filter plottable ?srcs)"
    and w: "\<forall>s\<in>set ?srcs. \<forall>df lbl. dataframe s = Some (Frame df) \<and> entry_label s = Some lbl \<and>
              df_empty df \<longrightarrow> Warning_skipping_empty_dataframe lbl \<in> set msgs"
    by blast
  have f: "map label_of (filter plottable ?srcs) = map fst (filter (\<lambda>(l, df). \<not> df_empty df) dfs)"
    by (induction dfs) (auto simp: plottable_def label_of_def)
  have sc: "setup_cycle sc gt new_axes = Inr new_axes"
    using assms(1) by (simp add: setup_cycle_def)
  have ds: "data_sources_of dfs = ?srcs" by (simp add: data_sources_of_def)
  let ?fig = "\<lparr>fig_size = (10, 6), fig_axes = new_axes\<lparr>artists := artists new_axes @ new\<rparr>,
               fig_title = ttl, fig_xlabel = xl, fig_ylabel = yl\<rparr>"
  have cg: "create_graph_from_dataframes dfs gt ttl xl yl sc = (msgs, Some ?fig)"
    using assms(1,2,3) l sc
    by (simp add: create_graph_from_dataframes_def create_graph_def create_graph_body_def ds
          subplots_def tight_layout_def)
  have w': "\<forall>p\<in>set dfs. df_empty (snd p) \<longrightarrow> Warning_skipping_empty_dataframe (fst p) \<in> set msgs"
  proof (intro ballI impI)
    fix p assume p: "p \<in> set dfs" "df_empty (snd p)"
    then have "?E p \<in> set ?srcs" by simp
    with w p(2) show "Warning_skipping_empty_dataframe (fst p) \<in> set msgs"
      by (cases p) auto
  qed
  show ?thesis
    by (rule exI[of _ msgs], rule exI[of _ ?fig]) (use cg ln f w' in \<open>simp add: new_axes_def\<close>)
qed

lemma loaded_sources_two_columns:
  "\<forall>p\<in>set (loaded_sources read_csv srcs). df_columns (snd p) = [''x'', ''y'']"
  by (auto simp: loaded_sources_def List.map_filter_def dest: loaded_two_columns)

lemma load_multiple_frames:
  "snd (load_multiple_csvs read_csv srcs) =
     fold (\<lambda>(l, df). AList.update l df) (loaded_sources read_csv srcs) []"
  by (simp add: load_multiple_csvs_def load_loop_frames)

lemma load_multiple_empty_iff:
  "snd (load_multiple_csvs read_csv srcs) = [] \<longleftrightarrow> loaded_sources read_csv srcs = []"
proof -
  have "fst ` set (snd (load_multiple_csvs read_csv srcs)) = fst ` set (loaded_sources read_csv srcs)"
    unfolding load_multiple_frames by (simp add: fold_update_keys)
  then show ?thesis by (metis image_is_empty set_empty)
qed

lemma load_multiple_two_columns:
  "\<forall>p\<in>set (snd (load_multiple_csvs read_csv srcs)). 2 \<le> length (df_columns (snd p))"
proof
  fix p assume "p \<in> set (snd (load_multiple_csvs read_csv srcs))"
  then have "snd p \<in> snd ` set (loaded_sources read_csv srcs)"
    using fold_update_values[of "loaded_sources read_csv srcs" "[]"]
    unfolding load_multiple_frames by auto
  then show "2 \<le> length (df_columns (snd p))"
    using loaded_sources_two_columns[of read_csv srcs] by auto
qed

lemma create_graph_from_config_unfold:
  "create_graph_from_config read_csv cfg =
     (if config_sources cfg = [] then ([Error_no_data_sources_in_configuration], None)
      else if snd (load_multiple_csvs read_csv (config_sources cfg)) = []
      then (fst (load_multiple_csvs read_csv (config_sources cfg)) @ [Error_failed_to_load_any_data], None)
      else (fst (load_multiple_csvs read_csv (config_sources cfg)) @
              fst (create_graph_from_dataframes (snd (load_multiple_csvs read_csv (config_sources cfg)))
                     (config_graph_type cfg)
                     (get (k_title (get (k_graph cfg) empty_graph)) ''Graph'')
                     (get (k_label (get (k_x_axis (get (k_graph cfg) empty_graph)) empty_axis)) ''X'')
                     (get (k_label (get (k_y_axis (get (k_graph cfg) empty_graph)) empty_axis)) ''Y'')
                     (StyleMapping (config_style cfg))),
            snd (create_graph_from_dataframes (snd (load_multiple_csvs read_csv (config_sources cfg)))
                     (config_graph_type cfg)
                     (get (k_title (get (k_graph cfg) empty_graph)) ''Graph'')
                     (get (k_label (get (k_x_axis (get (k_graph cfg) empty_graph)) empty_axis)) ''X'')
                     (get (k_label (get (k_y_axis (get (k_graph cfg) empty_graph)) empty_axis)) ''Y'')
                     (StyleMapping (config_style cfg)))))"
  by (simp add: create_graph_from_config_def Let_def config_sources_def config_graph_type_def
        config_style_def split: prod.splits)

lemma config_render:
  assumes "config_style cfg = empty_style" "config_graph_type cfg \<in> set supported_types"
      and "loaded_sources read_csv (config_sources cfg) \<noteq> []"
  shows "\<exists>msgs fig. create_graph_from_config read_csv cfg = (msgs, Some fig) \<and>
           map art_label (artists (fig_axes fig)) =
             map fst (filter (\<lambda>(l, df). \<not> df_empty df)
                        (snd (load_multiple_csvs read_csv (config_sources cfg)))) \<and>
           set (fst (load_multiple_csvs read_csv (config_sources cfg))) \<subseteq> set msgs \<and>
           (\<forall>p\<in>set (snd (load_multiple_csvs read_csv (config_sources cfg))).
              df_empty (snd p) \<longrightarrow> Warning_skipping_empty_dataframe (fst p) \<in> set msgs)"
proof -
  let ?dfs = "snd (load_multiple_csvs read_csv (config_sources cfg))"
  have ne: "?dfs \<noteq> []" using assms(3) by (simp add: load_multiple_empty_iff)
  have sne: "config_sources cfg \<noteq> []" using assms(3) by auto
  have nt: "\<not> truthy (StyleMapping (config_style cfg))" using assms(1) by simp
  from render_loaded[OF nt assms(2) ne load_multiple_two_columns]
  obtain msgs fig where
    r: "create_graph_from_dataframes ?dfs (config_graph_type cfg)
                     (get (k_title (get (k_graph cfg) empty_graph)) ''Graph'')
                     (get (k_label (get (k_x_axis (get (k_graph cfg) empty_graph)) empty_axis)) ''X'')
                     (get (k_label (get (k_y_axis (get (k_graph cfg) empty_graph)) empty_axis)) ''Y'')
                     (StyleMapping (config_style cfg)) = (msgs, Some fig)"
    and a: "map art_label (artists (fig_axes fig)) = map fst (filter (\<lambda>(l, df). \<not> df_empty df) ?dfs)"
    and w: "\<forall>p\<in>set ?dfs. df_empty (snd p) \<longrightarrow> Warning_skipping_empty_dataframe (fst p) \<in> set msgs"
    by blast
  show ?thesis
    by (rule exI[of _ "fst (load_multiple_csvs read_csv (config_sources cfg)) @ msgs"],
        rule exI[of _ fig])
       (use r a w ne sne in \<open>auto simp: create_graph_from_config_unfold\<close>)
qed


lemma batch_config_facts:
  "config_style (batch_config srcs) = empty_style"
  "config_graph_type (batch_config srcs) \<in> set supported_types"
  "config_sources (batch_config srcs) = srcs"
  by (simp_all add: batch_config_def config_style_def config_graph_type_def config_sources_def
        get_def empty_graph_def supported_types_def)

lemma example_loads:
  "loaded example_files \<lparr>k_file = Some ''a.csv'', k_source_label = Some l\<rparr> =
     Some (l, [(''x'', [0, 1]), (''y'', [5, 6])])"
  "loaded example_files \<lparr>k_file = Some ''b.csv'', k_source_label = Some l\<rparr> =
     Some (l, [(''x'', [0, 1]), (''y'', [7, 8])])"
  "loaded example_files \<lparr>k_file = Some ''one.csv'', k_source_label = Some l\<rparr> = None"
  "loaded example_files \<lparr>k_file = Some ''missing.csv'', k_source_label = Some l\<rparr> = None"
  "fails_to_load example_files \<lparr>k_file = Some ''one.csv'', k_source_label = Some l\<rparr> ''one.csv''"
  "fails_to_load example_files \<lparr>k_file = Some ''missing.csv'', k_source_label = Some l\<rparr> ''missing.csv''"
  by (simp_all add: loaded_def fails_to_load_def load_csv_def example_files_def df_columns_def
        df_col_def get_def)

text \<open>
  Claim C6, as stated, fails: there is not always one render plan for each source
  that loads. The two sources below both load, and they carry the same label, so
  the dictionary of frames keeps one entry and the figure has one line, drawn from
  the table of the second source.
\<close>

theorem same_label_gives_one_plan:
  "loaded_sources example_files
     [\<lparr>k_file = Some ''a.csv'', k_source_label = Some ''s''\<rparr>,
      \<lparr>k_file = Some ''b.csv'', k_source_label = Some ''s''\<rparr>] =
     [(''s'', [(''x'', [0, 1]), (''y'', [5, 6])]), (''s'', [(''x'', [0, 1]), (''y'', [7, 8])])] \<and>
   create_graph_from_config example_files
     (batch_config [\<lparr>k_file = Some ''a.csv'', k_source_label = Some ''s''\<rparr>,
                    \<lparr>k_file = Some ''b.csv'', k_source_label = Some ''s''\<rparr>]) =
     ([], Some \<lparr>fig_size = (10, 6),
                fig_axes = \<lparr>prop_cycle = None, cycle_pos = 0,
                  artists = [\<lparr>art_kind = ''line'', art_x = [0, 1], art_y = [7, 8],
                              art_label = ''s'', art_marker = None, art_linestyle = Some ''-'',
                              art_linewidth = Some 2, art_markersize = None, art_alpha = None,
                              art_s = None\<rparr>]\<rparr>,
                fig_title = ''Graph'', fig_xlabel = ''X'', fig_ylabel = ''Y''\<rparr>)"
  by (simp add: loaded_sources_def example_loads create_graph_from_config_def batch_config_def
        get_def empty_graph_def empty_axis_def load_multiple_csvs_def load_csv_def
        example_files_def df_columns_def df_col_def create_graph_from_dataframes_def
        data_sources_of_def subplots_def tight_layout_def
        create_graph_def supported_types_def create_graph_body_def style_or_def style_and_def
        setup_cycle_def and_then_def new_axes_def plot_source_def df_empty_def py_index_def
        plot_line_def manual_marker_def manual_linestyle_def ax_plot_def line_artist_def)

text \<open>
  Claim C6, amended. For a configuration with a supported chart type and no style
  section, whose sources that load carry pairwise distinct labels: every source
  whose file \<open>load_csv\<close> cannot load (not found, no data, fewer than two columns) is
  skipped with the warning \<open>Failed to load\<close>; a loaded table without rows is skipped
  by the renderer with its own warning; the figure has exactly one plan for each
  source that loaded a table with rows, in the order of the batch; and the operation
  fails outright exactly when no source loads.
\<close>

theorem batch_skips_failing_sources:
  assumes "config_style cfg = empty_style" "config_graph_type cfg \<in> set supported_types"
      and "loaded_sources read_csv (config_sources cfg) = L" "distinct (map fst L)"
  shows "(\<forall>sd\<in>set (config_sources cfg). \<forall>f. fails_to_load read_csv sd f \<longrightarrow>
            Warning_failed_to_load f \<in> set (fst (create_graph_from_config read_csv cfg))) \<and>
         (\<forall>p\<in>set L. df_empty (snd p) \<longrightarrow>
            Warning_skipping_empty_dataframe (fst p) \<in> set (fst (create_graph_from_config read_csv cfg))) \<and>
         (L = [] \<longrightarrow> snd (create_graph_from_config read_csv cfg) = None) \<and>
         (L \<noteq> [] \<longrightarrow>
            (\<exists>fig. snd (create_graph_from_config read_csv cfg) = Some fig \<and>
               map art_label (artists (fig_axes fig)) =
                 map fst (filter (\<lambda>(l, df). \<not> df_empty df) L)))"
proof -
  let ?srcs = "config_sources cfg"
  have d: "snd (load_multiple_csvs read_csv ?srcs) = L"
    using assms(3,4) fold_update_fresh[of "[]" L] by (simp add: load_multiple_frames)
  have warn: "\<forall>sd\<in>set ?srcs. \<forall>f. fails_to_load read_csv sd f \<longrightarrow>
            Warning_failed_to_load f \<in> set (fst (load_multiple_csvs read_csv ?srcs))"
    using load_loop_warns by (auto simp: load_multiple_csvs_def)
  show ?thesis
  proof (cases "L = []")
    case True
    have f: "?srcs \<noteq> [] \<Longrightarrow> create_graph_from_config read_csv cfg =
               (fst (load_multiple_csvs read_csv ?srcs) @ [Error_failed_to_load_any_data], None)"
      using True d by (simp add: create_graph_from_config_unfold)
    have n: "snd (create_graph_from_config read_csv cfg) = None"
      using True d by (simp add: create_graph_from_config_unfold)
    have w1: "\<forall>sd\<in>set ?srcs. \<forall>f. fails_to_load read_csv sd f \<longrightarrow>
            Warning_failed_to_load f \<in> set (fst (create_graph_from_config read_csv cfg))"
    proof (intro ballI allI impI)
      fix sd f assume a: "sd \<in> set ?srcs" "fails_to_load read_csv sd f"
      then have "?srcs \<noteq> []" by auto
      from f[OF this] warn a
      show "Warning_failed_to_load f \<in> set (fst (create_graph_from_config read_csv cfg))" by simp
    qed
    from w1 n True show ?thesis by simp
  next
    case False
    have ne: "loaded_sources read_csv (config_sources cfg) \<noteq> []" using assms(3) False by simp
    from config_render[OF assms(1,2) ne]
    obtain msgs fig where
      cg: "create_graph_from_config read_csv cfg = (msgs, Some fig)"
      and a: "map art_label (artists (fig_axes fig)) = map fst (filter (\<lambda>(l, df). \<not> df_empty df) L)"
      and m: "set (fst (load_multiple_csvs read_csv ?srcs)) \<subseteq> set msgs"
      and w: "\<forall>p\<in>set L. df_empty (snd p) \<longrightarrow> Warning_skipping_empty_dataframe (fst p) \<in> set msgs"
      unfolding d by blast
    have w1: "\<forall>sd\<in>set ?srcs. \<forall>f. fails_to_load read_csv sd f \<longrightarrow>
            Warning_failed_to_load f \<in> set (fst (create_graph_from_config read_csv cfg))"
      using warn m cg by auto
    from w1 w cg a False show ?thesis by simp
  qed
qed

theorem batch_skips_failing_sources_witness:
  "config_style (batch_config
     [\<lparr>k_file = Some ''a.csv'', k_source_label = Some ''A''\<rparr>,
      \<lparr>k_file = Some ''one.csv'', k_source_label = Some ''B''\<rparr>,
      \<lparr>k_file = Some ''b.csv'', k_source_label = Some ''C''\<rparr>]) = empty_style \<and>
   config_graph_type (batch_config
     [\<lparr>k_file = Some ''a.csv'', k_source_label = Some ''A''\<rparr>,
      \<lparr>k_file = Some ''one.csv'', k_source_label = Some ''B''\<rparr>,
      \<lparr>k_file = Some ''b.csv'', k_source_label = Some ''C''\<rparr>]) \<in> set supported_types \<and>
   loaded_sources example_files (config_sources (batch_config
     [\<lparr>k_file = Some ''a.csv'', k_source_label = Some ''A''\<rparr>,
      \<lparr>k_file = Some ''one.csv'', k_source_label = Some ''B''\<rparr>,
      \<lparr>k_file = Some ''b.csv'', k_source_label = Some ''C''\<rparr>])) =
     [(''A'', [(''x'', [0, 1]), (''y'', [5, 6])]), (''C'', [(''x'', [0, 1]), (''y'', [7, 8])])] \<and>
   distinct (map fst
     [(''A'', [(''x'', [0, 1]), (''y'', [5 :: real, 6])]), (''C'', [(''x'', [0, 1]), (''y'', [7, 8])])]) \<and>
   Warning_failed_to_load ''one.csv'' \<in> set (fst (create_graph_from_config example_files (batch_config
     [\<lparr>k_file = Some ''a.csv'', k_source_label = Some ''A''\<rparr>,
      \<lparr>k_file = Some ''one.csv'', k_source_label = Some ''B''\<rparr>,
      \<lparr>k_file = Some ''b.csv'', k_source_label = Some ''C''\<rparr>]))) \<and>
   (\<exists>fig. snd (create_graph_from_config example_files (batch_config
     [\<lparr>k_file = Some ''a.csv'', k_source_label = Some ''A''\<rparr>,
      \<lparr>k_file = Some ''one.csv'', k_source_label = Some ''B''\<rparr>,
      \<lparr>k_file = Some ''b.csv'', k_source_label = Some ''C''\<rparr>])) = Some fig \<and>
      map art_label (artists (fig_axes fig)) = [''A'', ''C''])"
proof -
  let ?srcs = "[\<lparr>k_file = Some ''a.csv'', k_source_label = Some ''A''\<rparr>,
      \<lparr>k_file = Some ''one.csv'', k_source_label = Some ''B''\<rparr>,
      \<lparr>k_file = Some ''b.csv'', k_source_label = Some ''C''\<rparr>]"
  let ?L = "[(''A'', [(''x'', [0, 1]), (''y'', [5 :: real, 6])]), (''C'', [(''x'', [0, 1]), (''y'', [7, 8])])]"
  have h1: "config_style (batch_config ?srcs) = empty_style" by (rule batch_config_facts)
  have h2: "config_graph_type (batch_config ?srcs) \<in> set supported_types"
    by (rule batch_config_facts)
  have h3: "loaded_sources example_files (config_sources (batch_config ?srcs)) = ?L"
    by (simp add: batch_config_facts loaded_sources_def example_loads)
  have h4: "distinct (map fst ?L)" by simp
  have f: "fails_to_load example_files \<lparr>k_file = Some ''one.csv'', k_source_label = Some ''B''\<rparr> ''one.csv''"
    by (rule example_loads)
  from batch_skips_failing_sources[OF h1 h2 h3 h4]
  have w: "\<forall>sd\<in>set (config_sources (batch_config ?srcs)). \<forall>f. fails_to_load example_files sd f \<longrightarrow>
            Warning_failed_to_load f \<in> set (fst (create_graph_from_config example_files (batch_config ?srcs)))"
    and r: "?L \<noteq> [] \<longrightarrow>
            (\<exists>fig. snd (create_graph_from_config example_files (batch_config ?srcs)) = Some fig \<and>
               map art_label (artists (fig_axes fig)) =
                 map fst (filter (\<lambda>(l, df). \<not> df_empty df) ?L))"
    by blast+
  from w f have w': "Warning_failed_to_load ''one.csv'' \<in>
      set (fst (create_graph_from_config example_files (batch_config ?srcs)))"
    by (simp add: batch_config_facts)
  from r have r': "\<exists>fig. snd (create_graph_from_config example_files (batch_config ?srcs)) = Some fig \<and>
      map art_label (artists (fig_axes fig)) = [''A'', ''C'']"
    by (simp add: df_empty_def)
  from h1 h2 h3 h4 w' r' show ?thesis by (intro conjI)
qed



end
